theory Spec2Isabelle
  imports Main "HOL-Library.Sublist"
begin

section \<open>The command layer of the ABOUT tool (about_tool/cmd.py)\<close>

text \<open>
  The module is a command-line dispatcher: each subcommand validates its arguments,
  calls collaborators of the packages \<open>model\<close>, \<open>gen\<close>, \<open>attrib\<close> and \<open>util\<close>, and
  reports the errors they return through \<open>log_errors\<close>. The embedding threads an
  explicit world through every function: the two module-level flags, the file system,
  the lines written to standard output and the collaborator calls made so far.
\<close>

subsection \<open>Data\<close>

type_synonym path = string

text \<open>\<open>Error\<close> is a named tuple \<open>(severity, message)\<close>.\<close>

type_synonym Error = "int \<times> string"

text \<open>
  Modelled from the spec: the severity constants imported from the package
  \<open>about_tool\<close>, whose \<open>__init__\<close> module is not part of the sources (CRITICAL=50,
  ERROR=40, WARNING=30, INFO=20, NOTSET=0).
\<close>

definition CRITICAL :: int where "CRITICAL = 50"
definition ERROR :: int where "ERROR = 40"
definition WARNING :: int where "WARNING = 30"
definition INFO :: int where "INFO = 20"
definition NOTSET :: int where "NOTSET = 0"

text \<open>
  Modelled from the spec: the table \<open>severities\<close> of the package \<open>about_tool\<close> (not part
  of the sources), which names each of the five levels. The functions below take the
  table as a field of their environment; this is the instance the spec describes.
\<close>

definition spec_severities :: "int \<rightharpoonup> string" where
  "spec_severities =
     [CRITICAL \<mapsto> ''CRITICAL'', ERROR \<mapsto> ''ERROR'', WARNING \<mapsto> ''WARNING'',
      INFO \<mapsto> ''INFO'', NOTSET \<mapsto> ''NOTSET'']"

text \<open>A path of the file system names a directory or a regular file holding lines.\<close>

datatype node = Dir | File "string list"

type_synonym fsys = "path \<rightharpoonup> node"

text \<open>The calls the command layer makes to its collaborators, with their arguments.\<close>

datatype 'a call =
    ExtractZip path
  | CollectInventory path
  | ToJson "'a list" path
  | ToCsv "'a list" path
  | Generate bool "(string \<times> string) option" path path
  | VerifyLicenseFiles "'a list" path
  | CopyFiles "(string \<times> string) list" path
  | GenerateAndSave "'a list" path bool "path option" "path option"

text \<open>
  The world: \<open>no_stdout\<close> and \<open>verbosity_num\<close> are the module-level globals (lines
  50-51), \<open>fsys\<close> the file system, \<open>stdout\<close> the lines printed by this module and
  \<open>calls\<close> the collaborator calls in the order they were made.
\<close>

record 'a world =
  no_stdout :: bool
  verbosity_num :: int
  fsys :: fsys
  stdout :: "string list"
  calls :: "'a call list"

text \<open>
  Everything the module imports and does not define. The collaborators are opaque: each
  returns its result and may change the file system in any way. They are taken to
  return (the spec gives them the interface "returns \<open>(errors, abouts)\<close>").
  \<open>file_enabled\<close> is \<open>Logger.isEnabledFor\<close> of the logger \<open>__name__ + '_file'\<close>: the
  logging library drops a record whose level is below the logger's effective level,
  which the module never sets.
\<close>

record 'a env =
  version :: string
  severities :: "int \<rightharpoonup> string"
  to_posix :: "path \<Rightarrow> path"
  join :: "path \<Rightarrow> path \<Rightarrow> path"
  dirname :: "path \<Rightarrow> path"
  file_enabled :: "int \<Rightarrow> bool"
  extract_zip :: "path \<Rightarrow> fsys \<Rightarrow> path \<times> fsys"
  collect_inventory :: "path \<Rightarrow> fsys \<Rightarrow> (Error list \<times> 'a list) \<times> fsys"
  to_json :: "'a list \<Rightarrow> path \<Rightarrow> fsys \<Rightarrow> fsys"
  to_csv :: "'a list \<Rightarrow> path \<Rightarrow> fsys \<Rightarrow> fsys"
  generate :: "bool \<Rightarrow> (string \<times> string) option \<Rightarrow> path \<Rightarrow> path \<Rightarrow> fsys
                 \<Rightarrow> (Error list \<times> 'a list) \<times> fsys"
  verify_license_files :: "'a list \<Rightarrow> path \<Rightarrow> fsys
                 \<Rightarrow> ((string \<times> string) list \<times> Error list) \<times> fsys"
  copy_files :: "(string \<times> string) list \<Rightarrow> path \<Rightarrow> fsys \<Rightarrow> fsys"
  generate_and_save :: "'a list \<Rightarrow> path \<Rightarrow> bool \<Rightarrow> path option \<Rightarrow> path option \<Rightarrow> fsys
                 \<Rightarrow> Error list \<times> fsys"

text \<open>
  How a command line can fail: \<open>severities[severity]\<close> on a severity missing from the
  table (\<open>KeyError\<close>), the two file operations of \<open>log_errors\<close> (\<open>OSError\<close>), a callback
  whose parameter no command-line argument provides (\<open>TypeError\<close>), and an argument that
  click rejects before the callback runs (\<open>UsageError\<close>: a message on the standard
  error and the exit status 2).
\<close>

datatype exn = KeyError int | OSError path | TypeError | UsageError

text \<open>A call either returns or raises; both leave a world behind.\<close>

datatype 'a outcome = Returned "'a world" | Raised exn "'a world"

fun world_of :: "'a outcome \<Rightarrow> 'a world" where
  "world_of (Returned w) = w"
| "world_of (Raised e w) = w"

fun returned :: "'a outcome \<Rightarrow> bool" where
  "returned (Returned w) = True"
| "returned (Raised e w) = False"

fun exn_of :: "'a outcome \<Rightarrow> exn option" where
  "exn_of (Returned w) = None"
| "exn_of (Raised e w) = Some e"

subsection \<open>Strings, output and files\<close>

text \<open>\<open>s.endswith(suf)\<close>.\<close>

definition endswith :: "string \<Rightarrow> string \<Rightarrow> bool" where
  "endswith s suf = suffix suf s"

text \<open>\<open>s.lower()\<close> on the ASCII letters.\<close>

definition lower_char :: "char \<Rightarrow> char" where
  "lower_char c =
     (case map_of (zip ''ABCDEFGHIJKLMNOPQRSTUVWXYZ'' ''abcdefghijklmnopqrstuvwxyz'') c of
        None \<Rightarrow> c
      | Some l \<Rightarrow> l)"

definition lower :: "string \<Rightarrow> string" where
  "lower s = map lower_char s"

text \<open>\<open>click.echo(s)\<close> writes a line whatever \<open>no_stdout\<close> says.\<close>

definition echo :: "string \<Rightarrow> 'a world \<Rightarrow> 'a world" where
  "echo s w = w\<lparr>stdout := stdout w @ [s]\<rparr>"

text \<open>\<open>os.path.exists\<close>.\<close>

definition exists :: "'a world \<Rightarrow> path \<Rightarrow> bool" where
  "exists w p = (fsys w p \<noteq> None)"

text \<open>\<open>os.remove\<close>: unlinks a regular file, raises on anything else.\<close>

definition os_remove :: "path \<Rightarrow> 'a world \<Rightarrow> 'a outcome" where
  "os_remove p w =
     (case fsys w p of
        Some (File c) \<Rightarrow> Returned (w\<lparr>fsys := (fsys w)(p := None)\<rparr>)
      | _ \<Rightarrow> Raised (OSError p) w)"

text \<open>
  \<open>logging.FileHandler(p)\<close> opens \<open>p\<close> for appending: an existing file is kept, a missing
  one is created empty when its directory exists (an empty directory name is the
  working directory), and anything else raises.
\<close>

definition file_handler :: "'a env \<Rightarrow> path \<Rightarrow> 'a world \<Rightarrow> 'a outcome" where
  "file_handler env p w =
     (case fsys w p of
        Some (File c) \<Rightarrow> Returned w
      | Some Dir \<Rightarrow> Raised (OSError p) w
      | None \<Rightarrow>
          if dirname env p = [] \<or> fsys w (dirname env p) = Some Dir
          then Returned (w\<lparr>fsys := (fsys w)(p \<mapsto> File [])\<rparr>)
          else Raised (OSError p) w)"

text \<open>The handler writes one line per record at the end of its file.\<close>

definition write_line :: "path \<Rightarrow> string \<Rightarrow> 'a world \<Rightarrow> 'a world" where
  "write_line p l w =
     (case fsys w p of
        Some (File c) \<Rightarrow> w\<lparr>fsys := (fsys w)(p \<mapsto> File (c @ [l]))\<rparr>
      | _ \<Rightarrow> w)"

subsection \<open>log_errors (lines 285-314)\<close>

text \<open>
  Lines 290-294 attach a stream handler to the logger \<open>__name__\<close>, to which nothing is
  ever logged: they leave the world as it is. The file logger is taken without a handler
  of an earlier call, as in a command-line run, where each subcommand calls
  \<open>log_errors\<close> once.
\<close>

text \<open>Python truth of \<open>base_dir\<close>: the default \<open>False\<close> is \<open>None\<close>, a string is true when not empty.\<close>

fun truthy :: "path option \<Rightarrow> bool" where
  "truthy None = False"
| "truthy (Some p) = (p \<noteq> [])"

definition log_path :: "'a env \<Rightarrow> path \<Rightarrow> path" where
  "log_path env base_dir = join env (to_posix env base_dir) ''error.log''"

text \<open>\<open>msg_format % locals()\<close>.\<close>

definition msg_format :: "string \<Rightarrow> string \<Rightarrow> string" where
  "msg_format sever message = sever @ '': '' @ message"

text \<open>
  The loop of lines 308-314 over the errors left. The lookup in \<open>severities\<close> raises
  \<open>KeyError\<close> in the middle of the loop; what was printed and logged before stays.
\<close>

fun log_loop :: "'a env \<Rightarrow> path option \<Rightarrow> int \<Rightarrow> Error list \<Rightarrow> 'a world \<Rightarrow> 'a outcome" where
  "log_loop env base_dir level [] w = Returned w"
| "log_loop env base_dir level ((severity, message) # errors) w =
     (if severity \<ge> level then
        (case severities env severity of
           None \<Rightarrow> Raised (KeyError severity) w
         | Some sever \<Rightarrow>
             let w1 = (if \<not> no_stdout w then echo (msg_format sever message) w else w);
                 w2 = (if truthy base_dir \<and> file_enabled env severity
                       then write_line (log_path env (the base_dir)) (msg_format sever message) w1
                       else w1)
             in log_loop env base_dir level errors w2)
      else log_loop env base_dir level errors w)"

text \<open>Lines 299-307: remove a log that exists, then open the new one.\<close>

definition create_log :: "'a env \<Rightarrow> path option \<Rightarrow> 'a world \<Rightarrow> 'a outcome" where
  "create_log env base_dir w =
     (if truthy base_dir then
        (let p = log_path env (the base_dir) in
         if exists w p then
           (case os_remove p w of
              Returned w1 \<Rightarrow> file_handler env p w1
            | Raised e w1 \<Rightarrow> Raised e w1)
         else file_handler env p w)
      else Returned w)"

definition log_errors :: "'a env \<Rightarrow> Error list \<Rightarrow> path option \<Rightarrow> int \<Rightarrow> 'a world \<Rightarrow> 'a outcome" where
  "log_errors env errors base_dir level w =
     (case create_log env base_dir w of
        Returned w1 \<Rightarrow> log_loop env base_dir level errors w1
      | Raised e w1 \<Rightarrow> Raised e w1)"

subsection \<open>The command group (lines 79-84)\<close>

text \<open>The module starts with \<open>no_stdout = False\<close> and \<open>verbosity_num = 30\<close>.\<close>

definition initial_world :: "fsys \<Rightarrow> 'a world" where
  "initial_world fs =
     \<lparr>no_stdout = False, verbosity_num = 30, fsys = fs, stdout = [], calls = []\<rparr>"

definition cli :: "int \<Rightarrow> bool \<Rightarrow> 'a world \<Rightarrow> 'a world" where
  "cli verbose quiet w = w\<lparr>no_stdout := quiet, verbosity_num := verbose\<rparr>"

subsection \<open>Collaborator calls\<close>

text \<open>Each call is recorded, then the collaborator runs on the file system.\<close>

definition call_extract_zip :: "'a env \<Rightarrow> path \<Rightarrow> 'a world \<Rightarrow> path \<times> 'a world" where
  "call_extract_zip env location w =
     (let (r, fs) = extract_zip env location (fsys w)
      in (r, w\<lparr>fsys := fs, calls := calls w @ [ExtractZip location]\<rparr>))"

definition call_collect_inventory ::
  "'a env \<Rightarrow> path \<Rightarrow> 'a world \<Rightarrow> (Error list \<times> 'a list) \<times> 'a world" where
  "call_collect_inventory env location w =
     (let (r, fs) = collect_inventory env location (fsys w)
      in (r, w\<lparr>fsys := fs, calls := calls w @ [CollectInventory location]\<rparr>))"

definition call_to_json :: "'a env \<Rightarrow> 'a list \<Rightarrow> path \<Rightarrow> 'a world \<Rightarrow> 'a world" where
  "call_to_json env abouts output w =
     w\<lparr>fsys := to_json env abouts output (fsys w), calls := calls w @ [ToJson abouts output]\<rparr>"

definition call_to_csv :: "'a env \<Rightarrow> 'a list \<Rightarrow> path \<Rightarrow> 'a world \<Rightarrow> 'a world" where
  "call_to_csv env abouts output w =
     w\<lparr>fsys := to_csv env abouts output (fsys w), calls := calls w @ [ToCsv abouts output]\<rparr>"

definition call_generate ::
  "'a env \<Rightarrow> bool \<Rightarrow> (string \<times> string) option \<Rightarrow> path \<Rightarrow> path \<Rightarrow> 'a world
     \<Rightarrow> (Error list \<times> 'a list) \<times> 'a world" where
  "call_generate env mapping extract_license location output w =
     (let (r, fs) = generate env mapping extract_license location output (fsys w)
      in (r, w\<lparr>fsys := fs,
               calls := calls w @ [Generate mapping extract_license location output]\<rparr>))"

definition call_verify_license_files ::
  "'a env \<Rightarrow> 'a list \<Rightarrow> path \<Rightarrow> 'a world
     \<Rightarrow> ((string \<times> string) list \<times> Error list) \<times> 'a world" where
  "call_verify_license_files env abouts license_text_location w =
     (let (r, fs) = verify_license_files env abouts license_text_location (fsys w)
      in (r, w\<lparr>fsys := fs,
               calls := calls w @ [VerifyLicenseFiles abouts license_text_location]\<rparr>))"

definition call_copy_files ::
  "'a env \<Rightarrow> (string \<times> string) list \<Rightarrow> path \<Rightarrow> 'a world \<Rightarrow> 'a world" where
  "call_copy_files env lic_loc_dict output w =
     w\<lparr>fsys := copy_files env lic_loc_dict output (fsys w),
       calls := calls w @ [CopyFiles lic_loc_dict output]\<rparr>"

definition call_generate_and_save ::
  "'a env \<Rightarrow> 'a list \<Rightarrow> path \<Rightarrow> bool \<Rightarrow> path option \<Rightarrow> path option \<Rightarrow> 'a world
     \<Rightarrow> Error list \<times> 'a world" where
  "call_generate_and_save env abouts output mapping template inventory_location w =
     (let (r, fs) = generate_and_save env abouts output mapping template inventory_location
                      (fsys w)
      in (r, w\<lparr>fsys := fs,
               calls := calls w @
                 [GenerateAndSave abouts output mapping template inventory_location]\<rparr>))"

text \<open>Lines 135-137 and 259-261: a zipped location is replaced by its extraction.\<close>

definition unzip_location :: "'a env \<Rightarrow> path \<Rightarrow> 'a world \<Rightarrow> path \<times> 'a world" where
  "unzip_location env location w =
     (if endswith (lower location) ''.zip'' then call_extract_zip env location w
      else (location, w))"

subsection \<open>inventory (lines 106-148)\<close>

definition formats :: "string list" where
  "formats = [''csv'', ''json'']"

definition banner :: "'a env \<Rightarrow> string" where
  "banner env = ''Running about-code-tool version '' @ version env"

text \<open>Lines 132-139: the location is announced, unzipped and collected.\<close>

definition inventory_collect ::
  "'a env \<Rightarrow> path \<Rightarrow> path \<Rightarrow> 'a world \<Rightarrow> (Error list \<times> 'a list) \<times> 'a world" where
  "inventory_collect env location output w0 =
     (let w = echo (''Collecting the inventory from location: '' @ location @
                    '' and writing output to: '' @ output) w0;
          (location, w) = unzip_location env location w
      in call_collect_inventory env location w)"

text \<open>Lines 141-147: without ABOUT files the errors are replaced, else the output is written.\<close>

definition inventory_write ::
  "'a env \<Rightarrow> string \<Rightarrow> path \<Rightarrow> Error list \<Rightarrow> 'a list \<Rightarrow> 'a world \<Rightarrow> Error list \<times> 'a world" where
  "inventory_write env format output errors abouts w =
     (if abouts = [] then
        ([(ERROR, ''No ABOUT files is found. Generation halted.'')], w)
      else if format = ''json'' then (errors, call_to_json env abouts output w)
      else (errors, call_to_csv env abouts output w))"

text \<open>Lines 132-148, reached when no check of the arguments failed.\<close>

definition inventory_run :: "'a env \<Rightarrow> string \<Rightarrow> path \<Rightarrow> path \<Rightarrow> 'a world \<Rightarrow> 'a outcome" where
  "inventory_run env format location output w0 =
     (let ((errors, abouts), w) = inventory_collect env location output w0;
          (errors, w) = inventory_write env format output errors abouts w
      in log_errors env errors (Some (dirname env output)) (verbosity_num w) w)"

definition inventory ::
  "'a env \<Rightarrow> bool \<Rightarrow> string \<Rightarrow> path \<Rightarrow> path \<Rightarrow> 'a world \<Rightarrow> 'a outcome" where
  \<open>inventory env overwrite format location output w0 =
     (let w = echo (banner env) w0 in
      if exists w output \<and> \<not> overwrite then
        Returned (echo '''' (echo
          ''Select a different file name or use the --overwrite option after the `inventory`.''
          (echo ''ERROR: <output> file already exists.'' w)))
      else if \<not> exists w (dirname env output) then
        Returned (echo '''' (echo
          ''ERROR: Path to the <output> does not exists. Please check and correct the <output>.''
          w))
      else if format \<notin> set formats then
        Returned (echo '''' (echo
          (''ERROR: Output format: '' @ format @ '' is not supported.'') w))
      else if format \<noteq> ''json'' \<and> \<not> endswith output ''.csv'' then
        Returned (echo '''' (echo
          ''ERROR: <output> must be a CSV file ending with ".csv".'' w))
      else inventory_run env format location output w)\<close>

subsection \<open>gen (lines 182-215)\<close>

text \<open>A loop of \<open>errors.append(x)\<close> over a list (lines 202-205).\<close>

fun append_each :: "'b list \<Rightarrow> 'b list \<Rightarrow> 'b list" where
  "append_each errors [] = errors"
| "append_each errors (x # xs) = append_each (errors @ [x]) xs"

text \<open>Lines 195-205: the license files are checked and copied, their errors added.\<close>

definition gen_license_files ::
  "'a env \<Rightarrow> path option \<Rightarrow> path \<Rightarrow> Error list \<Rightarrow> 'a list \<Rightarrow> 'a world
     \<Rightarrow> Error list \<times> 'a world" where
  "gen_license_files env license_text_location output errors abouts w0 =
     (if truthy license_text_location then
        (let ((lic_loc_dict, lic_file_err), w) =
               call_verify_license_files env abouts (the license_text_location) w0;
             w = (if lic_loc_dict \<noteq> [] then call_copy_files env lic_loc_dict output w else w)
         in if lic_file_err \<noteq> []
            then (append_each (append_each [] errors) lic_file_err, w)
            else (errors, w))
      else (errors, w0))"

text \<open>Lines 208-213: the count \<open>lee\<close> of the errors and warnings.\<close>

fun count_errors :: "Error list \<Rightarrow> nat \<Rightarrow> nat" where
  "count_errors [] lee = lee"
| "count_errors ((severity, message) # errors) lee =
     count_errors errors (if severity > 20 then lee + 1 else lee)"

text \<open>The format \<open>%d\<close> of a count.\<close>

definition digit :: "nat \<Rightarrow> char" where
  "digit d = ''0123456789'' ! d"

function str_nat :: "nat \<Rightarrow> string" where
  "str_nat n = (if n < 10 then [digit n] else str_nat (n div 10) @ [digit (n mod 10)])"
  by pat_completeness auto
termination
  by (relation "measure id") auto

declare str_nat.simps [simp del]

definition summary :: "nat \<Rightarrow> nat \<Rightarrow> string" where
  "summary lea lee =
     ''Generated '' @ str_nat lea @ '' ABOUT files with '' @ str_nat lee @
     '' errors and/or warning''"

text \<open>Lines 193-205: what \<open>generate\<close> and the license step leave for the summary.\<close>

definition gen_collect ::
  "'a env \<Rightarrow> bool \<Rightarrow> path option \<Rightarrow> (string \<times> string) option \<Rightarrow> path \<Rightarrow> path \<Rightarrow> 'a world
     \<Rightarrow> (Error list \<times> 'a list) \<times> 'a world" where
  "gen_collect env mapping license_text_location extract_license location output w0 =
     (let ((errors, abouts), w) =
            call_generate env mapping extract_license location output w0;
          (errors, w) = gen_license_files env license_text_location output errors abouts w
      in ((errors, abouts), w))"

definition gen ::
  "'a env \<Rightarrow> bool \<Rightarrow> path option \<Rightarrow> (string \<times> string) option \<Rightarrow> path \<Rightarrow> path \<Rightarrow> 'a world
     \<Rightarrow> 'a outcome" where
  "gen env mapping license_text_location extract_license location output w0 =
     (let w = echo (banner env) w0 in
      if \<not> endswith location ''.csv'' \<and> \<not> endswith location ''.json'' then
        Returned (echo '''' (echo
          ''ERROR: Input file. Only .csv and .json files are supported.'' w))
      else
        (let w = echo ''Generating ABOUT files...'' w;
             ((errors, abouts), w) =
               gen_collect env mapping license_text_location extract_license location output w;
             lea = length abouts;
             lee = count_errors errors 0;
             w = echo (summary lea lee) w
         in log_errors env errors (Some output) NOTSET w))"

subsection \<open>attrib (lines 249-269) and export (lines 219-221)\<close>

text \<open>Lines 256-266: the ABOUT files are collected and the attribution is generated.\<close>

definition attrib_collect ::
  "'a env \<Rightarrow> path \<Rightarrow> path \<Rightarrow> path option \<Rightarrow> bool \<Rightarrow> path option \<Rightarrow> 'a world
     \<Rightarrow> Error list \<times> 'a world" where
  "attrib_collect env location output template mapping inventory_location w0 =
     (let w = echo ''Generating attribution...'' (echo (banner env) w0);
          (location, w) = unzip_location env location w;
          ((errors, abouts), w) = call_collect_inventory env location w
      in call_generate_and_save env abouts output mapping template inventory_location w)"

definition attrib ::
  "'a env \<Rightarrow> path \<Rightarrow> path \<Rightarrow> path option \<Rightarrow> bool \<Rightarrow> path option \<Rightarrow> 'a world \<Rightarrow> 'a outcome" where
  "attrib env location output template mapping inventory_location w0 =
     (let (no_match_errors, w) =
            attrib_collect env location output template mapping inventory_location w0
      in case log_errors env no_match_errors (Some (dirname env output)) NOTSET w of
           Returned w1 \<Rightarrow> Returned (echo ''Finished.'' w1)
         | Raised e w1 \<Rightarrow> Raised e w1)"

definition export :: "'a env \<Rightarrow> 'a world \<Rightarrow> 'a outcome" where
  "export env w = Returned (echo ''Exporting zip archive...'' (echo (banner env) w))"

subsection \<open>fetch (lines 225-232) and redist (lines 271-282)\<close>

text \<open>
  Both are registered without a click argument, while \<open>fetch\<close> declares the parameter
  \<open>location\<close> and \<open>redist\<close> the parameters \<open>input_dir\<close> and \<open>output\<close>: click calls them
  without arguments, and the call raises \<open>TypeError\<close> before the body prints anything.
\<close>

definition fetch :: "'a env \<Rightarrow> 'a world \<Rightarrow> 'a outcome" where
  "fetch env w = Raised TypeError w"

definition redist :: "'a env \<Rightarrow> 'a world \<Rightarrow> 'a outcome" where
  "redist env w = Raised TypeError w"

subsection \<open>A command line\<close>

text \<open>The six registered subcommands with the arguments and options click gives them.\<close>

datatype command =
    Inventory bool string path path
  | Gen bool "path option" "(string \<times> string) option" path path
  | Attrib path path "path option" bool "path option"
  | Export
  | Fetch
  | Redist

fun run_command :: "'a env \<Rightarrow> command \<Rightarrow> 'a world \<Rightarrow> 'a outcome" where
  "run_command env (Inventory overwrite format location output) w =
     inventory env overwrite format location output w"
| "run_command env (Gen mapping license_text_location extract_license location output) w =
     gen env mapping license_text_location extract_license location output w"
| "run_command env (Attrib location output template mapping inventory_location) w =
     attrib env location output template mapping inventory_location w"
| "run_command env Export w = export env w"
| "run_command env Fetch w = fetch env w"
| "run_command env Redist w = redist env w"

text \<open>
  \<open>click.Path(exists, file_okay, dir_okay)\<close>, the type of the path arguments: a path that
  does not exist passes unless \<open>exists\<close> is set, a regular file passes when \<open>file_okay\<close>,
  a directory when \<open>dir_okay\<close>. The file system of the model has no permissions, so
  \<open>readable\<close> and \<open>writable\<close> hold of every path, and the paths are taken as resolved
  already.
\<close>

definition click_path :: "bool \<Rightarrow> bool \<Rightarrow> bool \<Rightarrow> fsys \<Rightarrow> path \<Rightarrow> bool" where
  "click_path must_exist file_okay dir_okay fs p =
     (case fs p of
        None \<Rightarrow> \<not> must_exist
      | Some Dir \<Rightarrow> dir_okay
      | Some (File c) \<Rightarrow> file_okay)"

text \<open>An option or an optional argument that is not given is not checked.\<close>

fun click_option :: "bool \<Rightarrow> bool \<Rightarrow> bool \<Rightarrow> fsys \<Rightarrow> path option \<Rightarrow> bool" where
  "click_option must_exist file_okay dir_okay fs None = True"
| "click_option must_exist file_okay dir_okay fs (Some p) =
     click_path must_exist file_okay dir_okay fs p"

text \<open>
  The declarations of lines 96-102 (\<open>inventory\<close>), 158-172 (\<open>gen\<close>) and 236-247
  (\<open>attrib\<close>); the other subcommands take no argument.
\<close>

fun click_accepts :: "command \<Rightarrow> fsys \<Rightarrow> bool" where
  "click_accepts (Inventory overwrite format location output) fs =
     (click_path True True True fs location \<and> click_path False True False fs output)"
| "click_accepts (Gen mapping license_text_location extract_license location output) fs =
     (click_path True True False fs location \<and> click_path True False True fs output \<and>
      click_option True False True fs license_text_location)"
| "click_accepts (Attrib location output template mapping inventory_location) fs =
     (click_path True True True fs location \<and> click_path False True False fs output \<and>
      click_option False True False fs inventory_location \<and>
      click_option True True True fs template)"
| "click_accepts Export fs = True"
| "click_accepts Fetch fs = True"
| "click_accepts Redist fs = True"

text \<open>
  click converts the arguments of the subcommand, and calls it when they all pass;
  otherwise nothing of the subcommand runs.
\<close>

definition invoke :: "'a env \<Rightarrow> command \<Rightarrow> 'a world \<Rightarrow> 'a outcome" where
  "invoke env cmd w =
     (if click_accepts cmd (fsys w) then run_command env cmd w else Raised UsageError w)"

text \<open>
  \<open>about [-v LEVEL] [-q] <subcommand> ...\<close>: the group callback runs, then click turns
  to the subcommand.
\<close>

definition about :: "'a env \<Rightarrow> int \<Rightarrow> bool \<Rightarrow> command \<Rightarrow> 'a world \<Rightarrow> 'a outcome" where
  "about env verbose quiet cmd w = invoke env cmd (cli verbose quiet w)"

subsection \<open>What the properties speak about\<close>

text \<open>The line printed and logged for an error whose severity the table names.\<close>

definition error_line :: "'a env \<Rightarrow> Error \<Rightarrow> string" where
  "error_line env e =
     msg_format (case severities env (fst e) of None \<Rightarrow> [] | Some sever \<Rightarrow> sever) (snd e)"

text \<open>
  The errors the loop of \<open>log_errors\<close> gets through: all of them, unless one at or above
  the level has a severity outside the table, where the loop stops with \<open>KeyError\<close>.
\<close>

definition handled :: "'a env \<Rightarrow> int \<Rightarrow> Error list \<Rightarrow> Error list" where
  "handled env level errors =
     takeWhile (\<lambda>e. fst e < level \<or> severities env (fst e) \<noteq> None) errors"

definition printed :: "'a env \<Rightarrow> int \<Rightarrow> Error list \<Rightarrow> string list" where
  "printed env level errors = map (error_line env) (filter (\<lambda>e. level \<le> fst e) errors)"

definition logged :: "'a env \<Rightarrow> int \<Rightarrow> Error list \<Rightarrow> string list" where
  "logged env level errors =
     map (error_line env) (filter (\<lambda>e. level \<le> fst e \<and> file_enabled env (fst e)) errors)"

text \<open>The collaborator calls a command added to those of the world it started in.\<close>

definition new_calls :: "'a world \<Rightarrow> 'a outcome \<Rightarrow> 'a call list" where
  "new_calls w out = drop (length (calls w)) (calls (world_of out))"

text \<open>The lines a command added to the standard output.\<close>

definition new_output :: "'a world \<Rightarrow> 'a outcome \<Rightarrow> string list" where
  "new_output w out = drop (length (stdout w)) (stdout (world_of out))"

text \<open>All four checks of \<open>inventory\<close> (lines 113-130) pass.\<close>

definition inventory_args_ok :: "'a env \<Rightarrow> bool \<Rightarrow> string \<Rightarrow> path \<Rightarrow> 'a world \<Rightarrow> bool" where
  "inventory_args_ok env overwrite format output w =
     ((overwrite \<or> fsys w output = None) \<and> fsys w (dirname env output) \<noteq> None \<and>
      format \<in> set formats \<and> (format = ''json'' \<or> endswith output ''.csv''))"

text \<open>The check of \<open>gen\<close> (line 188) passes.\<close>

definition gen_args_ok :: "path \<Rightarrow> bool" where
  "gen_args_ok location = (endswith location ''.csv'' \<or> endswith location ''.json'')"

text \<open>The checks a subcommand makes in its body pass; only \<open>inventory\<close> and \<open>gen\<close> have any.\<close>

fun args_ok :: "'a env \<Rightarrow> command \<Rightarrow> 'a world \<Rightarrow> bool" where
  "args_ok env (Inventory overwrite format location output) w =
     inventory_args_ok env overwrite format output w"
| "args_ok env (Gen mapping license_text_location extract_license location output) w =
     gen_args_ok location"
| "args_ok env (Attrib location output template mapping inventory_location) w = True"
| "args_ok env Export w = True"
| "args_ok env Fetch w = True"
| "args_ok env Redist w = True"

text \<open>The location \<open>collect_inventory\<close> is called on: the extraction of a zipped one.\<close>

definition collected_location :: "'a env \<Rightarrow> path \<Rightarrow> 'a world \<Rightarrow> path" where
  "collected_location env location w =
     (if endswith (lower location) ''.zip'' then fst (extract_zip env location (fsys w))
      else location)"

text \<open>The ABOUT records \<open>collect_inventory\<close> returns there, after the extraction.\<close>

definition collected_abouts :: "'a env \<Rightarrow> path \<Rightarrow> 'a world \<Rightarrow> 'a list" where
  "collected_abouts env location w =
     snd (fst (collect_inventory env (collected_location env location w)
       (if endswith (lower location) ''.zip'' then snd (extract_zip env location (fsys w))
        else fsys w)))"

text \<open>
  The call by which a subcommand delegates, with the arguments of the command line:
  \<open>collect_inventory\<close> for \<open>inventory\<close>, \<open>generate\<close> for \<open>gen\<close>, \<open>generate_and_save\<close> on
  the collected records for \<open>attrib\<close>. The stubs have none.
\<close>

fun delegate_call :: "'a env \<Rightarrow> command \<Rightarrow> 'a world \<Rightarrow> 'a call option" where
  "delegate_call env (Inventory overwrite format location output) w =
     Some (CollectInventory (collected_location env location w))"
| "delegate_call env (Gen mapping license_text_location extract_license location output) w =
     Some (Generate mapping extract_license location output)"
| "delegate_call env (Attrib location output template mapping inventory_location) w =
     Some (GenerateAndSave (collected_abouts env location w) output mapping template
             inventory_location)"
| "delegate_call env Export w = None"
| "delegate_call env Fetch w = None"
| "delegate_call env Redist w = None"

text \<open>A command made the call by which it delegates.\<close>

definition delegated :: "'a env \<Rightarrow> command \<Rightarrow> 'a world \<Rightarrow> 'a outcome \<Rightarrow> bool" where
  "delegated env cmd w out =
     (case delegate_call env cmd w of
        None \<Rightarrow> False
      | Some c \<Rightarrow> c \<in> set (new_calls w out))"

fun has_collaborator :: "command \<Rightarrow> bool" where
  "has_collaborator (Inventory overwrite format location output) = True"
| "has_collaborator (Gen mapping license_text_location extract_license location output) = True"
| "has_collaborator (Attrib location output template mapping inventory_location) = True"
| "has_collaborator Export = False"
| "has_collaborator Fetch = False"
| "has_collaborator Redist = False"

fun is_collect :: "'a call \<Rightarrow> bool" where
  "is_collect (CollectInventory p) = True"
| "is_collect c = False"

fun is_output_write :: "'a call \<Rightarrow> bool" where
  "is_output_write (ToJson a p) = True"
| "is_output_write (ToCsv a p) = True"
| "is_output_write c = False"

text \<open>
  A command gave up on its arguments: it returned, after the banner and a line that
  starts with \<open>ERROR:\<close>, without a collaborator call and with the files as they were.
\<close>

definition aborted :: "'a env \<Rightarrow> 'a world \<Rightarrow> 'a outcome \<Rightarrow> bool" where
  "aborted env w out =
     (returned out \<and> fsys (world_of out) = fsys w \<and> calls (world_of out) = calls w \<and>
      (case new_output w out of
         b # m # rest \<Rightarrow> b = banner env \<and> prefix ''ERROR: '' m
       | _ \<Rightarrow> False))"

text \<open>
  A command extracted the zipped location and collected the extraction: its first two
  calls are \<open>extract_zip\<close> on the location and \<open>collect_inventory\<close> on what that returned,
  and it collects nothing else.
\<close>

definition collects_extracted :: "'a env \<Rightarrow> path \<Rightarrow> 'a world \<Rightarrow> 'a outcome \<Rightarrow> bool" where
  "collects_extracted env location w out =
     (take 2 (new_calls w out) =
        [ExtractZip location, CollectInventory (fst (extract_zip env location (fsys w)))] \<and>
      list_all (\<lambda>c. \<not> is_collect c) (drop 2 (new_calls w out)))"

text \<open>
  The log at a path holds at least the lines \<open>lo\<close> and at most the lines \<open>hi\<close>, in their
  order.
\<close>

definition log_between :: "string list \<Rightarrow> string list \<Rightarrow> node option \<Rightarrow> bool" where
  "log_between lo hi n =
     (case n of
        Some (File ls) \<Rightarrow> subseq lo ls \<and> subseq ls hi
      | _ \<Rightarrow> False)"

text \<open>The number a string of decimal digits denotes.\<close>

definition digit_value :: "char \<Rightarrow> nat" where
  "digit_value c =
     (case map_of (zip ''0123456789'' [0, 1, 2, 3, 4, 5, 6, 7, 8, 9]) c of
        None \<Rightarrow> 0
      | Some d \<Rightarrow> d)"

definition decimal_value :: "string \<Rightarrow> nat" where
  "decimal_value s = foldl (\<lambda>n c. 10 * n + digit_value c) 0 s"

subsection \<open>A concrete environment\<close>

text \<open>\<open>posixpath.join\<close> of two components and \<open>posixpath.dirname\<close>.\<close>

definition posix_join :: "path \<Rightarrow> path \<Rightarrow> path" where
  "posix_join a b =
     (if prefix ''/'' b then b
      else if a = [] \<or> endswith a ''/'' then a @ b
      else a @ ''/'' @ b)"

definition posix_dirname :: "path \<Rightarrow> path" where
  "posix_dirname p =
     (let head = rev (dropWhile (\<lambda>c. c \<noteq> CHR ''/'') (rev p))
      in if head \<noteq> [] \<and> \<not> list_all (\<lambda>c. c = CHR ''/'') head
         then rev (dropWhile (\<lambda>c. c = CHR ''/'') (rev head))
         else head)"

text \<open>
  An environment on POSIX paths with the table of the spec, the logging library left
  unconfigured (the file logger inherits the level WARNING of the root logger), and
  collaborators that return the given errors and ABOUT records.
\<close>

definition stub_env :: "Error list \<Rightarrow> nat list \<Rightarrow> nat env" where
  "stub_env errs abouts =
     \<lparr>version = ''3.0.0'',
      severities = spec_severities,
      to_posix = (\<lambda>p. p),
      join = posix_join,
      dirname = posix_dirname,
      file_enabled = (\<lambda>severity. 30 \<le> severity),
      extract_zip = (\<lambda>p fs. (''/tmp/extracted'', fs(''/tmp/extracted'' \<mapsto> Dir))),
      collect_inventory = (\<lambda>p fs. ((errs, abouts), fs)),
      to_json = (\<lambda>a p fs. fs(p \<mapsto> File [''json''])),
      to_csv = (\<lambda>a p fs. fs(p \<mapsto> File [''csv''])),
      generate = (\<lambda>m e l out fs. ((errs, abouts), fs)),
      verify_license_files = (\<lambda>a p fs. (([], []), fs)),
      copy_files = (\<lambda>d out fs. fs),
      generate_and_save = (\<lambda>a out m t i fs. (errs, fs(out \<mapsto> File [''attribution''])))\<rparr>"

text \<open>
  An input directory with an inventory, and a directory \<open>/out\<close> with an earlier log and
  an earlier inventory.
\<close>

definition sample_fs :: fsys where
  "sample_fs =
     [''/in'' \<mapsto> Dir, ''/in/inventory.csv'' \<mapsto> File [''about_resource,name''],
      ''/out'' \<mapsto> Dir, ''/out/error.log'' \<mapsto> File [''ERROR: old''],
      ''/out/inv.csv'' \<mapsto> File [''about_resource,name'']]"

definition sample_world :: "nat world" where
  "sample_world = initial_world sample_fs"

section \<open>Properties\<close>

subsection \<open>The loop of log_errors\<close>

lemma log_loop_flags:
  "no_stdout (world_of (log_loop env b level errors w)) = no_stdout w \<and>
   verbosity_num (world_of (log_loop env b level errors w)) = verbosity_num w \<and>
   calls (world_of (log_loop env b level errors w)) = calls w"
  by (induction env b level errors w rule: log_loop.induct)
     (auto simp: echo_def write_line_def Let_def split: option.splits node.splits)

lemma log_loop_quiet:
  "no_stdout w \<Longrightarrow> stdout (world_of (log_loop env b level errors w)) = stdout w"
  by (induction env b level errors w rule: log_loop.induct)
     (auto simp: echo_def write_line_def Let_def split: option.splits node.splits)

lemma write_line_simps [simp]:
  "no_stdout (write_line p l w) = no_stdout w"
  "stdout (write_line p l w) = stdout w"
  "calls (write_line p l w) = calls w"
  "verbosity_num (write_line p l w) = verbosity_num w"
  by (auto simp: write_line_def split: option.splits node.splits)

lemma echo_simps [simp]:
  "no_stdout (echo s w) = no_stdout w"
  "stdout (echo s w) = stdout w @ [s]"
  "calls (echo s w) = calls w"
  "verbosity_num (echo s w) = verbosity_num w"
  "fsys (echo s w) = fsys w"
  by (simp_all add: echo_def)

lemma write_line_file:
  "fsys w p = Some (File c) \<Longrightarrow> fsys (write_line p l w) p = Some (File (c @ [l]))"
  by (simp add: write_line_def)

lemma write_line_other:
  "q \<noteq> p \<Longrightarrow> fsys (write_line p l w) q = fsys w q"
  by (auto simp: write_line_def split: option.splits node.splits)

lemma log_loop_stdout:
  "stdout (world_of (log_loop env b level errors w)) =
   stdout w @ (if no_stdout w then [] else printed env level (handled env level errors))"
proof (induction env b level errors w rule: log_loop.induct)
  case (1 env b level w)
  then show ?case by (simp add: printed_def handled_def)
next
  case (2 env b level severity message errors w)
  show ?case
  proof (cases "severity \<ge> level")
    case False
    with 2 show ?thesis by (simp add: printed_def handled_def)
  next
    case True
    show ?thesis
    proof (cases "severities env severity")
      case None
      with True show ?thesis by (simp add: printed_def handled_def)
    next
      case (Some sever)
      with True 2(1)[OF True Some refl refl] show ?thesis
        by (simp add: printed_def handled_def error_line_def Let_def)
    qed
  qed
qed

lemma log_loop_file:
  "truthy b \<Longrightarrow> fsys w (log_path env (the b)) = Some (File c) \<Longrightarrow>
   fsys (world_of (log_loop env b level errors w)) (log_path env (the b)) =
   Some (File (c @ logged env level (handled env level errors)))"
proof (induction env b level errors w arbitrary: c rule: log_loop.induct)
  case (1 env b level w)
  then show ?case by (simp add: logged_def handled_def)
next
  case (2 env b level severity message errors w)
  show ?case
  proof (cases "severity \<ge> level")
    case False
    with 2 show ?thesis by (simp add: logged_def handled_def)
  next
    case True
    show ?thesis
    proof (cases "severities env severity")
      case None
      with True 2(4) show ?thesis by (simp add: logged_def handled_def)
    next
      case (Some sever)
      show ?thesis
      proof (cases "file_enabled env severity")
        case en: True
        from 2(4) have "fsys (write_line (log_path env (the b)) (msg_format sever message)
                           (if \<not> no_stdout w then echo (msg_format sever message) w else w))
                         (log_path env (the b)) = Some (File (c @ [msg_format sever message]))"
          by (simp add: write_line_file)
        with True Some en 2(3) 2(1)[OF True Some refl refl 2(3)] show ?thesis
          by (simp add: logged_def handled_def error_line_def Let_def)
      next
        case dis: False
        from 2(4) have "fsys (if \<not> no_stdout w then echo (msg_format sever message) w else w)
                         (log_path env (the b)) = Some (File c)"
          by simp
        with True Some dis 2(3) 2(1)[OF True Some refl refl 2(3)] show ?thesis
          by (simp add: logged_def handled_def error_line_def Let_def)
      qed
    qed
  qed
qed

lemma log_loop_other:
  "q \<noteq> log_path env (the b) \<Longrightarrow> fsys (world_of (log_loop env b level errors w)) q = fsys w q"
  by (induction env b level errors w rule: log_loop.induct)
     (auto simp: Let_def write_line_other split: option.splits)

lemma log_loop_falsy:
  "\<not> truthy b \<Longrightarrow> fsys (world_of (log_loop env b level errors w)) = fsys w"
  by (induction env b level errors w rule: log_loop.induct)
     (auto simp: Let_def split: option.splits)

lemma log_loop_returned:
  "returned (log_loop env b level errors w) = (handled env level errors = errors)"
  by (induction env b level errors w rule: log_loop.induct)
     (auto simp: Let_def handled_def split: option.splits)

subsection \<open>log_errors\<close>

lemma create_log_falsy: "\<not> truthy b \<Longrightarrow> create_log env b w = Returned w"
  by (simp add: create_log_def)

lemma create_log_ok:
  assumes "truthy b"
    and "fsys w (log_path env (the b)) \<noteq> Some Dir"
    and "dirname env (log_path env (the b)) = [] \<or>
         fsys w (dirname env (log_path env (the b))) = Some Dir"
  shows "create_log env b w =
         Returned (w\<lparr>fsys := (fsys w)(log_path env (the b) \<mapsto> File [])\<rparr>)"
proof (cases "fsys w (log_path env (the b))")
  case None
  with assms show ?thesis
    by (auto simp: create_log_def exists_def file_handler_def)
next
  case (Some n)
  with assms(2) obtain c where c: "fsys w (log_path env (the b)) = Some (File c)"
    by (cases n) auto
  with assms(3) have "dirname env (log_path env (the b)) = [] \<or>
      (dirname env (log_path env (the b)) \<noteq> log_path env (the b) \<and>
       fsys w (dirname env (log_path env (the b))) = Some Dir)"
    by auto
  with assms(1) c show ?thesis
    by (auto simp: create_log_def exists_def os_remove_def file_handler_def)
qed

lemma create_log_keeps:
  "no_stdout (world_of (create_log env b w)) = no_stdout w \<and>
   verbosity_num (world_of (create_log env b w)) = verbosity_num w \<and>
   calls (world_of (create_log env b w)) = calls w \<and>
   stdout (world_of (create_log env b w)) = stdout w"
  by (auto simp: create_log_def exists_def os_remove_def file_handler_def Let_def
           split: option.splits node.splits)

lemma log_errors_keeps:
  "no_stdout (world_of (log_errors env errors b level w)) = no_stdout w \<and>
   verbosity_num (world_of (log_errors env errors b level w)) = verbosity_num w \<and>
   calls (world_of (log_errors env errors b level w)) = calls w"
proof (cases "create_log env b w")
  case (Returned w1)
  with create_log_keeps[of env b w] log_loop_flags[of env b level errors w1] show ?thesis
    by (simp add: log_errors_def)
next
  case (Raised e w1)
  with create_log_keeps[of env b w] show ?thesis
    by (simp add: log_errors_def)
qed

lemma log_errors_quiet:
  "no_stdout w \<Longrightarrow> stdout (world_of (log_errors env errors b level w)) = stdout w"
proof (cases "create_log env b w")
  case (Returned w1)
  assume "no_stdout w"
  with Returned create_log_keeps[of env b w] log_loop_quiet[of w1 env b level errors]
  show ?thesis
    by (simp add: log_errors_def)
next
  case (Raised e w1)
  with create_log_keeps[of env b w] show ?thesis
    by (simp add: log_errors_def)
qed

lemma log_errors_ok:
  assumes "truthy b"
    and "fsys w (log_path env (the b)) \<noteq> Some Dir"
    and "dirname env (log_path env (the b)) = [] \<or>
         fsys w (dirname env (log_path env (the b))) = Some Dir"
  shows "log_errors env errors b level w =
         log_loop env b level errors (w\<lparr>fsys := (fsys w)(log_path env (the b) \<mapsto> File [])\<rparr>)"
  using create_log_ok[OF assms] by (simp add: log_errors_def)

lemma log_errors_file:
  assumes "truthy b"
    and "fsys w (log_path env (the b)) \<noteq> Some Dir"
    and "dirname env (log_path env (the b)) = [] \<or>
         fsys w (dirname env (log_path env (the b))) = Some Dir"
  shows "fsys (world_of (log_errors env errors b level w)) (log_path env (the b)) =
         Some (File (logged env level (handled env level errors)))"
  using log_loop_file[of b "w\<lparr>fsys := (fsys w)(log_path env (the b) \<mapsto> File [])\<rparr>" env "[]"
          level errors] assms(1)
  by (simp add: log_errors_ok[OF assms])

lemma log_errors_stdout:
  assumes "truthy b"
    and "fsys w (log_path env (the b)) \<noteq> Some Dir"
    and "dirname env (log_path env (the b)) = [] \<or>
         fsys w (dirname env (log_path env (the b))) = Some Dir"
  shows "stdout (world_of (log_errors env errors b level w)) =
         stdout w @ (if no_stdout w then [] else printed env level (handled env level errors))"
  by (simp add: log_errors_ok[OF assms] log_loop_stdout)

lemma log_errors_returned:
  assumes "truthy b"
    and "fsys w (log_path env (the b)) \<noteq> Some Dir"
    and "dirname env (log_path env (the b)) = [] \<or>
         fsys w (dirname env (log_path env (the b))) = Some Dir"
  shows "returned (log_errors env errors b level w) = (handled env level errors = errors)"
  by (simp add: log_errors_ok[OF assms] log_loop_returned)

lemma handled_all:
  "list_all (\<lambda>e. fst e < level \<or> severities env (fst e) \<noteq> None) errors \<Longrightarrow>
   handled env level errors = errors"
  by (simp add: handled_def list_all_iff)

subsection \<open>The collaborators leave the flags and the output alone\<close>

lemma call_simps [simp]:
  "no_stdout (snd (call_extract_zip env l w)) = no_stdout w"
  "verbosity_num (snd (call_extract_zip env l w)) = verbosity_num w"
  "stdout (snd (call_extract_zip env l w)) = stdout w"
  "no_stdout (snd (call_collect_inventory env l w)) = no_stdout w"
  "verbosity_num (snd (call_collect_inventory env l w)) = verbosity_num w"
  "stdout (snd (call_collect_inventory env l w)) = stdout w"
  "no_stdout (call_to_json env a out w) = no_stdout w"
  "verbosity_num (call_to_json env a out w) = verbosity_num w"
  "stdout (call_to_json env a out w) = stdout w"
  "no_stdout (call_to_csv env a out w) = no_stdout w"
  "verbosity_num (call_to_csv env a out w) = verbosity_num w"
  "stdout (call_to_csv env a out w) = stdout w"
  "no_stdout (snd (call_generate env m e l out w)) = no_stdout w"
  "verbosity_num (snd (call_generate env m e l out w)) = verbosity_num w"
  "stdout (snd (call_generate env m e l out w)) = stdout w"
  "no_stdout (snd (call_verify_license_files env a l w)) = no_stdout w"
  "verbosity_num (snd (call_verify_license_files env a l w)) = verbosity_num w"
  "stdout (snd (call_verify_license_files env a l w)) = stdout w"
  "no_stdout (call_copy_files env d out w) = no_stdout w"
  "verbosity_num (call_copy_files env d out w) = verbosity_num w"
  "stdout (call_copy_files env d out w) = stdout w"
  "no_stdout (snd (call_generate_and_save env a out m t i w)) = no_stdout w"
  "verbosity_num (snd (call_generate_and_save env a out m t i w)) = verbosity_num w"
  "stdout (snd (call_generate_and_save env a out m t i w)) = stdout w"
  by (simp_all add: call_extract_zip_def call_collect_inventory_def call_to_json_def
        call_to_csv_def call_generate_def call_verify_license_files_def call_copy_files_def
        call_generate_and_save_def split: prod.splits)

lemma unzip_location_keeps [simp]:
  "no_stdout (snd (unzip_location env l w)) = no_stdout w"
  "verbosity_num (snd (unzip_location env l w)) = verbosity_num w"
  "stdout (snd (unzip_location env l w)) = stdout w"
  by (simp_all add: unzip_location_def)

lemma inventory_collect_keeps [simp]:
  "no_stdout (snd (inventory_collect env l out w)) = no_stdout w"
  "verbosity_num (snd (inventory_collect env l out w)) = verbosity_num w"
  by (simp_all add: inventory_collect_def Let_def split: prod.splits)
     (metis call_simps(4,5) unzip_location_keeps(1,2) echo_simps(1,4) snd_conv)+

lemma inventory_write_keeps [simp]:
  "no_stdout (snd (inventory_write env f out errors a w)) = no_stdout w"
  "verbosity_num (snd (inventory_write env f out errors a w)) = verbosity_num w"
  "stdout (snd (inventory_write env f out errors a w)) = stdout w"
  by (simp_all add: inventory_write_def)

lemma gen_license_files_keeps [simp]:
  "no_stdout (snd (gen_license_files env ltl out errors a w)) = no_stdout w"
  "verbosity_num (snd (gen_license_files env ltl out errors a w)) = verbosity_num w"
  "stdout (snd (gen_license_files env ltl out errors a w)) = stdout w"
  by (simp_all add: gen_license_files_def Let_def split: prod.splits)
     (metis call_simps(16,17,18) snd_conv)+

lemma gen_collect_keeps [simp]:
  "no_stdout (snd (gen_collect env m ltl e l out w)) = no_stdout w"
  "verbosity_num (snd (gen_collect env m ltl e l out w)) = verbosity_num w"
  "stdout (snd (gen_collect env m ltl e l out w)) = stdout w"
  by (simp_all add: gen_collect_def Let_def split: prod.splits)
     (metis call_simps(13,14,15) gen_license_files_keeps snd_conv)+

subsection \<open>The subcommands leave the flags alone\<close>

lemma inventory_keeps:
  "no_stdout (world_of (inventory env ov f l out w)) = no_stdout w \<and>
   verbosity_num (world_of (inventory env ov f l out w)) = verbosity_num w"
  by (simp add: inventory_def inventory_run_def Let_def log_errors_keeps split: prod.splits)
     (metis inventory_collect_keeps inventory_write_keeps(1,2) echo_simps(1,4) snd_conv)

lemma gen_keeps:
  "no_stdout (world_of (gen env m ltl e l out w)) = no_stdout w \<and>
   verbosity_num (world_of (gen env m ltl e l out w)) = verbosity_num w"
  by (simp add: gen_def Let_def log_errors_keeps split: prod.splits)
     (metis gen_collect_keeps(1,2) echo_simps(1,4) snd_conv)

lemma attrib_collect_keeps [simp]:
  "no_stdout (snd (attrib_collect env l out t m i w)) = no_stdout w"
  "verbosity_num (snd (attrib_collect env l out t m i w)) = verbosity_num w"
  by (simp_all add: attrib_collect_def Let_def split: prod.splits)
     (metis call_simps(4,5,22,23) unzip_location_keeps(1,2) echo_simps(1,4) snd_conv)+

lemma attrib_keeps:
  "no_stdout (world_of (attrib env l out t m i w)) = no_stdout w \<and>
   verbosity_num (world_of (attrib env l out t m i w)) = verbosity_num w"
proof -
  obtain es w3 where g: "attrib_collect env l out t m i w = (es, w3)"
    by (cases "attrib_collect env l out t m i w")
  have k: "no_stdout w3 = no_stdout w" "verbosity_num w3 = verbosity_num w"
    using attrib_collect_keeps[of env l out t m i w] g by simp_all
  show ?thesis
    using g k log_errors_keeps[of env es "Some (dirname env out)" NOTSET w3]
    by (cases "log_errors env es (Some (dirname env out)) NOTSET w3")
       (simp_all add: attrib_def)
qed

lemma run_command_keeps:
  "no_stdout (world_of (run_command env cmd w)) = no_stdout w \<and>
   verbosity_num (world_of (run_command env cmd w)) = verbosity_num w"
  by (cases cmd)
     (simp_all add: inventory_keeps gen_keeps attrib_keeps export_def fetch_def redist_def)

lemma invoke_keeps:
  "no_stdout (world_of (invoke env cmd w)) = no_stdout w \<and>
   verbosity_num (world_of (invoke env cmd w)) = verbosity_num w"
  by (simp add: invoke_def run_command_keeps)

subsection \<open>The concrete environment, the loops of gen, rejected arguments\<close>

lemma stub_paths:
  "log_path (stub_env errs abouts) ''/out'' = ''/out/error.log''"
  "dirname (stub_env errs abouts) ''/out/error.log'' = ''/out''"
  "dirname (stub_env errs abouts) ''/out/inv.csv'' = ''/out''"
  "dirname (stub_env errs abouts) ''/out/inv.txt'' = ''/out''"
  "dirname (stub_env errs abouts) ''/out/new.csv'' = ''/out''"
  "dirname (stub_env errs abouts) ''/out/new.json'' = ''/out''"
  "dirname (stub_env errs abouts) ''/out/notice.html'' = ''/out''"
  by (simp_all add: stub_env_def log_path_def posix_join_def posix_dirname_def endswith_def
        suffix_to_prefix)

lemma spec_severities_simps:
  "spec_severities 50 = Some ''CRITICAL''"
  "spec_severities 40 = Some ''ERROR''"
  "spec_severities 30 = Some ''WARNING''"
  "spec_severities 20 = Some ''INFO''"
  "spec_severities 0 = Some ''NOTSET''"
  "spec_severities 10 = None"
  by (simp_all add: spec_severities_def CRITICAL_def ERROR_def WARNING_def INFO_def NOTSET_def)

lemma count_errors_filter:
  "count_errors errors lee = lee + length (filter (\<lambda>e. 20 < fst e) errors)"
  by (induction errors lee rule: count_errors.induct) simp_all

lemma append_each_append: "append_each acc xs = acc @ xs"
  by (induction acc xs rule: append_each.induct) simp_all

lemma log_errors_stdout_grows:
  "\<exists>ls. stdout (world_of (log_errors env errors b level w)) = stdout w @ ls"
proof (cases "create_log env b w")
  case (Returned w1)
  with create_log_keeps[of env b w] log_loop_stdout[of env b level errors w1] show ?thesis
    by (simp add: log_errors_def)
next
  case (Raised e w1)
  with create_log_keeps[of env b w] show ?thesis
    by (simp add: log_errors_def)
qed

lemma inventory_aborts:
  "\<not> inventory_args_ok env overwrite format output w \<Longrightarrow>
   aborted env w (inventory env overwrite format location output w)"
  by (auto simp: inventory_args_ok_def inventory_def aborted_def new_output_def Let_def
        exists_def echo_def)

subsection \<open>The collaborator calls of the subcommands\<close>

lemma inventory_accepts:
  "inventory_args_ok env overwrite format out w \<Longrightarrow>
   inventory env overwrite format location out w =
   inventory_run env format location out (echo (banner env) w)"
  by (auto simp: inventory_args_ok_def inventory_def Let_def exists_def)

lemma unzip_location_calls:
  "calls (snd (unzip_location env l w)) =
     calls w @ (if endswith (lower l) ''.zip'' then [ExtractZip l] else [])"
  "fst (unzip_location env l w) =
     (if endswith (lower l) ''.zip'' then fst (extract_zip env l (fsys w)) else l)"
  by (simp_all add: unzip_location_def call_extract_zip_def split: prod.splits)

lemma call_collect_inventory_calls:
  "calls (snd (call_collect_inventory env l w)) = calls w @ [CollectInventory l]"
  by (simp add: call_collect_inventory_def split: prod.splits)

lemma inventory_collect_calls:
  "calls (snd (inventory_collect env l out w)) =
     calls w @ (if endswith (lower l) ''.zip''
                then [ExtractZip l, CollectInventory (fst (extract_zip env l (fsys w)))]
                else [CollectInventory l])"
proof -
  let ?w = "echo (''Collecting the inventory from location: '' @ l @
                    '' and writing output to: '' @ out) w"
  obtain l1 w1 where u: "unzip_location env l ?w = (l1, w1)"
    by (cases "unzip_location env l ?w")
  from u unzip_location_calls[of env l ?w] show ?thesis
    by (simp add: inventory_collect_def call_collect_inventory_calls)
qed

lemma inventory_write_calls:
  "calls (snd (inventory_write env f out errors a w)) =
     calls w @ (if a = [] then [] else if f = ''json'' then [ToJson a out] else [ToCsv a out])"
  by (simp add: inventory_write_def call_to_json_def call_to_csv_def)

lemma inventory_run_calls:
  "\<exists>rest. calls (world_of (inventory_run env f l out w)) =
     calls w @ (if endswith (lower l) ''.zip''
                then [ExtractZip l, CollectInventory (fst (extract_zip env l (fsys w)))]
                else [CollectInventory l]) @ rest \<and>
     list_all (\<lambda>c. \<not> is_collect c) rest"
proof -
  obtain errors a w1 where c: "inventory_collect env l out w = ((errors, a), w1)"
    by (cases "inventory_collect env l out w") auto
  obtain es w2 where wr: "inventory_write env f out errors a w1 = (es, w2)"
    by (cases "inventory_write env f out errors a w1")
  have "calls (world_of (inventory_run env f l out w)) = calls w2"
    using c wr by (simp add: inventory_run_def log_errors_keeps)
  moreover have "calls w2 = calls w1 @
      (if a = [] then [] else if f = ''json'' then [ToJson a out] else [ToCsv a out])"
    using inventory_write_calls[of env f out errors a w1] wr by simp
  moreover have "calls w1 = calls w @ (if endswith (lower l) ''.zip''
                then [ExtractZip l, CollectInventory (fst (extract_zip env l (fsys w)))]
                else [CollectInventory l])"
    using inventory_collect_calls[of env l out w] c by simp
  ultimately show ?thesis by simp
qed

lemma attrib_collect_calls:
  "\<exists>a. calls (snd (attrib_collect env l out t m i w)) =
     calls w @ (if endswith (lower l) ''.zip''
                then [ExtractZip l, CollectInventory (fst (extract_zip env l (fsys w)))]
                else [CollectInventory l]) @ [GenerateAndSave a out m t i]"
proof -
  let ?w = "echo ''Generating attribution...'' (echo (banner env) w)"
  obtain l1 w1 where u: "unzip_location env l ?w = (l1, w1)"
    by (cases "unzip_location env l ?w")
  obtain errors a w2 where c: "call_collect_inventory env l1 w1 = ((errors, a), w2)"
    by (cases "call_collect_inventory env l1 w1") auto
  have "calls (snd (attrib_collect env l out t m i w)) =
          calls w2 @ [GenerateAndSave a out m t i]"
    using u c by (simp add: attrib_collect_def call_generate_and_save_def split: prod.splits)
  moreover have "calls w2 = calls w1 @ [CollectInventory l1]"
    using call_collect_inventory_calls[of env l1 w1] c by simp
  moreover have "calls w1 = calls w @ (if endswith (lower l) ''.zip'' then [ExtractZip l] else [])"
    and "l1 = (if endswith (lower l) ''.zip'' then fst (extract_zip env l (fsys w)) else l)"
    using unzip_location_calls[of env l ?w] u by simp_all
  ultimately show ?thesis by auto
qed

lemma attrib_calls:
  "calls (world_of (attrib env l out t m i w)) = calls (snd (attrib_collect env l out t m i w))"
proof -
  obtain es w3 where g: "attrib_collect env l out t m i w = (es, w3)"
    by (cases "attrib_collect env l out t m i w")
  show ?thesis
    using g log_errors_keeps[of env es "Some (dirname env out)" NOTSET w3]
    by (cases "log_errors env es (Some (dirname env out)) NOTSET w3")
       (simp_all add: attrib_def)
qed

lemma gen_collect_calls:
  "\<exists>rest. calls (snd (gen_collect env m ltl e l out w)) = calls w @ Generate m e l out # rest"
  by (auto simp: gen_collect_def gen_license_files_def call_generate_def
        call_verify_license_files_def call_copy_files_def Let_def split: prod.splits)

lemma gen_calls:
  "gen_args_ok l \<Longrightarrow>
   \<exists>rest. calls (world_of (gen env m ltl e l out w)) = calls w @ Generate m e l out # rest"
proof -
  assume ok: "gen_args_ok l"
  let ?w = "echo ''Generating ABOUT files...'' (echo (banner env) w)"
  obtain errors a w1 where c: "gen_collect env m ltl e l out ?w = ((errors, a), w1)"
    by (cases "gen_collect env m ltl e l out ?w") auto
  from gen_collect_calls[of env m ltl e l out ?w] c
  obtain rest where "calls w1 = calls w @ Generate m e l out # rest" by auto
  with ok c show ?thesis
    by (auto simp: gen_def gen_args_ok_def Let_def log_errors_keeps)
qed

lemma stub_args:
  "inventory_args_ok (stub_env errs abouts) False ''csv'' ''/out/new.csv'' sample_world"
  "inventory_args_ok (stub_env errs abouts) False ''json'' ''/out/new.json'' sample_world"
  "\<not> inventory_args_ok (stub_env errs abouts) False ''csv'' ''/out/inv.csv'' sample_world"
  by (simp_all add: inventory_args_ok_def stub_paths formats_def endswith_def suffix_to_prefix
        sample_world_def initial_world_def sample_fs_def)

lemma gen_aborts:
  "\<not> gen_args_ok l \<Longrightarrow> aborted env w (gen env m ltl e l out w)"
  by (simp add: gen_args_ok_def gen_def aborted_def new_output_def Let_def echo_def)

subsection \<open>Decimal digits\<close>

lemma digit_value_digit: "d < 10 \<Longrightarrow> digit_value (digit d) = d"
proof -
  assume "d < 10"
  then have "d = 0 \<or> d = 1 \<or> d = 2 \<or> d = 3 \<or> d = 4 \<or> d = 5 \<or> d = 6 \<or> d = 7 \<or> d = 8 \<or> d = 9"
    by arith
  then show ?thesis
    by (elim disjE) (simp_all add: digit_def digit_value_def)
qed

lemma decimal_value_snoc:
  "decimal_value (s @ [c]) = 10 * decimal_value s + digit_value c"
  by (simp add: decimal_value_def)

lemma decimal_value_str_nat: "decimal_value (str_nat n) = n"
proof (induction n rule: str_nat.induct)
  case (1 n)
  show ?case
  proof (cases "n < 10")
    case True
    then show ?thesis
      by (subst str_nat.simps) (simp add: decimal_value_def digit_value_digit)
  next
    case False
    then have "decimal_value (str_nat n) =
        10 * decimal_value (str_nat (n div 10)) + digit_value (digit (n mod 10))"
      by (subst str_nat.simps) (simp add: decimal_value_snoc)
    with False 1 show ?thesis
      by (simp add: digit_value_digit)
  qed
qed

subsection \<open>The delegating calls\<close>

lemma attrib_collect_calls_exact:
  "calls (snd (attrib_collect env l out t m i w)) =
     calls w @ (if endswith (lower l) ''.zip''
                then [ExtractZip l, CollectInventory (fst (extract_zip env l (fsys w)))]
                else [CollectInventory l]) @
     [GenerateAndSave (collected_abouts env l w) out m t i]"
  by (simp add: attrib_collect_def unzip_location_def call_extract_zip_def
        call_collect_inventory_def call_generate_and_save_def collected_abouts_def
        collected_location_def Let_def split: prod.splits)

lemma inventory_delegated:
  assumes "inventory_args_ok env overwrite format out w"
  shows "CollectInventory (collected_location env location w)
           \<in> set (new_calls w (inventory env overwrite format location out w))"
  using inventory_run_calls[of env format location out "echo (banner env) w"]
  by (auto simp: new_calls_def inventory_accepts[OF assms] collected_location_def)

lemma gen_delegated:
  assumes "gen_args_ok location"
  shows "Generate mapping el location out
           \<in> set (new_calls w (gen env mapping ltl el location out w))"
  using gen_calls[OF assms, of env mapping ltl el out w]
  by (auto simp: new_calls_def)

lemma attrib_delegated:
  "GenerateAndSave (collected_abouts env location w) out mapping template inventory_location
     \<in> set (new_calls w (attrib env location out template mapping inventory_location w))"
  by (simp add: new_calls_def attrib_calls attrib_collect_calls_exact)


subsection \<open>The log between two bounds\<close>

lemma subseq_filter_mono:
  "(\<And>x. P x \<Longrightarrow> Q x) \<Longrightarrow> subseq (filter P xs) (filter Q xs)"
  by (induction xs) auto

lemma log_between_logged:
  assumes "\<forall>s. WARNING \<le> s \<longrightarrow> file_enabled env s"
  shows "log_between
           (map (error_line env) (filter (\<lambda>e. level \<le> fst e \<and> WARNING \<le> fst e) errors))
           (map (error_line env) (filter (\<lambda>e. level \<le> fst e) errors))
           (Some (File (logged env level errors)))"
proof -
  have "subseq (filter (\<lambda>e. level \<le> fst e \<and> WARNING \<le> fst e) errors)
               (filter (\<lambda>e. level \<le> fst e \<and> file_enabled env (fst e)) errors)"
    using assms by (intro subseq_filter_mono) auto
  moreover have "subseq (filter (\<lambda>e. level \<le> fst e \<and> file_enabled env (fst e)) errors)
               (filter (\<lambda>e. level \<le> fst e) errors)"
    by (intro subseq_filter_mono) auto
  ultimately show ?thesis
    by (simp add: log_between_def logged_def subseq_map)
qed

section \<open>The claims\<close>

text \<open>
  C1, as stated, does not hold: the claim prints and logs every error at or above
  \<open>verbosity_num\<close>, and no other, for every subcommand. With \<open>--quiet\<close> an \<open>inventory\<close> at
  verbosity 30 prints nothing of an ERROR (40), since line 311 guards the print by
  \<open>no_stdout\<close>. An \<open>inventory\<close> at verbosity 20 prints an INFO (20) error and leaves it
  out of \<open>error.log\<close>: the file logger, never given a level, drops what is below the
  level WARNING of the logging library. And \<open>gen\<close> calls \<open>log_errors\<close> without a level
  (line 215), so at verbosity 30 it prints an INFO error.
\<close>

theorem log_errors_threshold_counterexample:
  "verbosity_num (cli 30 True sample_world) \<le> 40 \<and>
   ''ERROR: boom'' \<notin> set (stdout (world_of
      (about (stub_env [(40, ''boom'')] [7]) 30 True
         (Inventory False ''csv'' ''/in'' ''/out/new.csv'') sample_world))) \<and>
   verbosity_num (cli 20 False sample_world) \<le> 20 \<and>
   ''INFO: note'' \<in> set (stdout (world_of
      (about (stub_env [(40, ''boom''), (20, ''note'')] [7]) 20 False
         (Inventory False ''csv'' ''/in'' ''/out/new.csv'') sample_world))) \<and>
   fsys (world_of
      (about (stub_env [(40, ''boom''), (20, ''note'')] [7]) 20 False
         (Inventory False ''csv'' ''/in'' ''/out/new.csv'') sample_world)) ''/out/error.log'' =
     Some (File [''ERROR: boom'']) \<and>
   20 < verbosity_num (cli 30 False sample_world) \<and>
   click_accepts (Gen False None None ''/in/inventory.csv'' ''/out'') (fsys sample_world) \<and>
   ''INFO: note'' \<in> set (stdout (world_of
      (about (stub_env [(20, ''note'')] [7]) 30 False
         (Gen False None None ''/in/inventory.csv'' ''/out'') sample_world)))"
  by code_simp

text \<open>
  C1, amended: an \<open>inventory\<close> that passes its checks runs \<open>log_errors\<close> at the level
  \<open>verbosity_num\<close> on the list it reports (the collaborator's errors, or the single
  error of C10). When every error of that list at or above the level has its severity in
  the table, the directory of the output exists and holds no directory named
  \<open>error.log\<close>, and the file logger is enabled for WARNING and above, the command
  returns; the lines it prints after the announcement are those of the errors with
  \<open>severity \<ge> verbosity_num\<close>, in order, and none when \<open>no_stdout\<close> is set; and
  \<open>error.log\<close> holds, in order, the line of every error with
  \<open>severity \<ge> verbosity_num\<close> of level WARNING or above, and no line of an error with
  \<open>severity < verbosity_num\<close>. An error below \<open>verbosity_num\<close> is neither printed nor
  logged.
\<close>

theorem inventory_reports_at_verbosity:
  assumes ok: "inventory_args_ok env overwrite format out w"
    and col: "inventory_collect env location out (echo (banner env) w) = ((errors, abouts), w1)"
    and wr: "inventory_write env format out errors abouts w1 = (reported, w2)"
    and known: "list_all (\<lambda>e. fst e < verbosity_num w \<or> severities env (fst e) \<noteq> None) reported"
    and dir: "dirname env out \<noteq> []"
    and nd: "fsys w2 (log_path env (dirname env out)) \<noteq> Some Dir"
    and pd: "dirname env (log_path env (dirname env out)) = [] \<or>
             fsys w2 (dirname env (log_path env (dirname env out))) = Some Dir"
    and en: "\<forall>s. WARNING \<le> s \<longrightarrow> file_enabled env s"
  shows "inventory env overwrite format location out w =
           log_errors env reported (Some (dirname env out)) (verbosity_num w) w2 \<and>
         returned (inventory env overwrite format location out w) \<and>
         stdout (world_of (inventory env overwrite format location out w)) =
           stdout w2 @ (if no_stdout w then [] else printed env (verbosity_num w) reported) \<and>
         log_between
           (map (error_line env)
              (filter (\<lambda>e. verbosity_num w \<le> fst e \<and> WARNING \<le> fst e) reported))
           (map (error_line env) (filter (\<lambda>e. verbosity_num w \<le> fst e) reported))
           (fsys (world_of (inventory env overwrite format location out w))
              (log_path env (dirname env out)))"
proof -
  have k1: "verbosity_num w1 = verbosity_num w" "no_stdout w1 = no_stdout w"
    using inventory_collect_keeps[of env location out "echo (banner env) w"] col by simp_all
  have k2: "verbosity_num w2 = verbosity_num w" "no_stdout w2 = no_stdout w"
    using inventory_write_keeps(1,2)[of env format out errors abouts w1] wr k1 by simp_all
  have eq: "inventory env overwrite format location out w =
           log_errors env reported (Some (dirname env out)) (verbosity_num w) w2"
    using col wr k2 by (simp add: inventory_accepts[OF ok] inventory_run_def)
  have t: "truthy (Some (dirname env out))" using dir by simp
  have nd': "fsys w2 (log_path env (the (Some (dirname env out)))) \<noteq> Some Dir"
    using nd by simp
  have pd': "dirname env (log_path env (the (Some (dirname env out)))) = [] \<or>
             fsys w2 (dirname env (log_path env (the (Some (dirname env out))))) = Some Dir"
    using pd by simp
  have h: "handled env (verbosity_num w) reported = reported"
    using known by (rule handled_all)
  have f: "fsys (world_of (inventory env overwrite format location out w))
             (log_path env (dirname env out)) =
           Some (File (logged env (verbosity_num w) reported))"
    using log_errors_file[OF t nd' pd', of reported "verbosity_num w"] h by (simp add: eq)
  have r: "returned (inventory env overwrite format location out w)"
    using log_errors_returned[OF t nd' pd', of reported "verbosity_num w"] h by (simp add: eq)
  have s: "stdout (world_of (inventory env overwrite format location out w)) =
           stdout w2 @ (if no_stdout w then [] else printed env (verbosity_num w) reported)"
    using log_errors_stdout[OF t nd' pd', of reported "verbosity_num w"] h k2 by (simp add: eq)
  have l: "log_between
           (map (error_line env)
              (filter (\<lambda>e. verbosity_num w \<le> fst e \<and> WARNING \<le> fst e) reported))
           (map (error_line env) (filter (\<lambda>e. verbosity_num w \<le> fst e) reported))
           (fsys (world_of (inventory env overwrite format location out w))
              (log_path env (dirname env out)))"
    unfolding f using en by (rule log_between_logged)
  from eq r s l show ?thesis by blast
qed

text \<open>
  At verbosity 20 the ERROR and the INFO error are printed and the NOTSET one is not;
  \<open>error.log\<close> holds the ERROR and nothing of the NOTSET error.
\<close>

theorem inventory_reports_at_verbosity_witness:
  "inventory_args_ok (stub_env [(40, ''boom''), (20, ''note''), (0, ''trace'')] [7]) False ''csv''
     ''/out/new.csv'' (cli 20 False sample_world) \<and>
   returned (inventory (stub_env [(40, ''boom''), (20, ''note''), (0, ''trace'')] [7]) False ''csv''
     ''/in'' ''/out/new.csv'' (cli 20 False sample_world)) \<and>
   stdout (world_of (inventory (stub_env [(40, ''boom''), (20, ''note''), (0, ''trace'')] [7]) False
     ''csv'' ''/in'' ''/out/new.csv'' (cli 20 False sample_world))) =
     [''Running about-code-tool version 3.0.0'',
      ''Collecting the inventory from location: /in and writing output to: /out/new.csv'',
      ''ERROR: boom'', ''INFO: note''] \<and>
   log_between [''ERROR: boom''] [''ERROR: boom'', ''INFO: note'']
     (fsys (world_of (inventory (stub_env [(40, ''boom''), (20, ''note''), (0, ''trace'')] [7]) False
        ''csv'' ''/in'' ''/out/new.csv'' (cli 20 False sample_world))) ''/out/error.log'')"
proof -
  let ?errs = "[(40, ''boom''), (20, ''note''), (0::int, ''trace'')]"
  let ?env = "stub_env ?errs [7]"
  let ?w = "cli 20 False sample_world"
  let ?c = "inventory_collect ?env ''/in'' ''/out/new.csv'' (echo (banner ?env) ?w)"
  let ?r = "inventory_write ?env ''csv'' ''/out/new.csv'' (fst (fst ?c)) (snd (fst ?c)) (snd ?c)"
  have ok: "inventory_args_ok ?env False ''csv'' ''/out/new.csv'' ?w"
    using stub_args(1)[of ?errs "[7]"]
    by (simp add: inventory_args_ok_def cli_def)
  have col: "?c = ((fst (fst ?c), snd (fst ?c)), snd ?c)" by simp
  have wr: "?r = (fst ?r, snd ?r)" by simp
  have cv: "fst (fst ?c) = ?errs" "snd (fst ?c) = [7]"
    by (simp_all add: inventory_collect_def unzip_location_def call_collect_inventory_def
          lower_def lower_char_def endswith_def suffix_to_prefix stub_env_def)
  have rv: "fst ?r = ?errs"
    by (simp add: cv inventory_write_def)
  have known: "list_all (\<lambda>e. fst e < verbosity_num ?w \<or> severities ?env (fst e) \<noteq> None) (fst ?r)"
    by (simp add: rv) (simp add: stub_env_def spec_severities_simps)
  have dir: "dirname ?env ''/out/new.csv'' \<noteq> []" by (simp add: stub_paths)
  have fs2: "fsys (snd ?r) = sample_fs(''/out/new.csv'' \<mapsto> File [''csv''])"
    by (simp add: cv inventory_write_def call_to_csv_def)
       (simp add: inventory_collect_def unzip_location_def call_collect_inventory_def
          lower_def lower_char_def endswith_def suffix_to_prefix stub_env_def echo_def cli_def
          sample_world_def initial_world_def)
  have nd: "fsys (snd ?r) (log_path ?env (dirname ?env ''/out/new.csv'')) \<noteq> Some Dir"
    by (simp add: fs2 stub_paths sample_fs_def)
  have pd: "dirname ?env (log_path ?env (dirname ?env ''/out/new.csv'')) = [] \<or>
        fsys (snd ?r) (dirname ?env (log_path ?env (dirname ?env ''/out/new.csv''))) = Some Dir"
    by (simp add: fs2 stub_paths sample_fs_def)
  have en: "\<forall>s. WARNING \<le> s \<longrightarrow> file_enabled ?env s"
    by (simp add: stub_env_def WARNING_def)
  have so: "stdout (snd ?r) =
     [''Running about-code-tool version 3.0.0'',
      ''Collecting the inventory from location: /in and writing output to: /out/new.csv'']"
    by (simp add: cv inventory_write_def call_to_csv_def)
       (simp add: inventory_collect_def unzip_location_def call_collect_inventory_def
          lower_def lower_char_def endswith_def suffix_to_prefix stub_env_def echo_def cli_def
          sample_world_def initial_world_def banner_def)
  have p: "printed ?env 20 ?errs = [''ERROR: boom'', ''INFO: note'']"
    "map (error_line ?env) (filter (\<lambda>e. 20 \<le> fst e \<and> WARNING \<le> fst e) ?errs) = [''ERROR: boom'']"
    "map (error_line ?env) (filter (\<lambda>e. 20 \<le> fst e) ?errs) = [''ERROR: boom'', ''INFO: note'']"
    by (simp_all add: printed_def error_line_def msg_format_def stub_env_def WARNING_def
          spec_severities_simps)
  have v: "verbosity_num ?w = 20" "\<not> no_stdout ?w" by (simp_all add: cli_def)
  have so': "stdout (snd ?c) =
     [''Running about-code-tool version 3.0.0'',
      ''Collecting the inventory from location: /in and writing output to: /out/new.csv'']"
    using so by simp
  note t = inventory_reports_at_verbosity [OF ok col wr known dir nd pd en, THEN conjunct2]
  have r: "returned (inventory ?env False ''csv'' ''/in'' ''/out/new.csv'' ?w)"
    using t by blast
  have s: "stdout (world_of (inventory ?env False ''csv'' ''/in'' ''/out/new.csv'' ?w)) =
     [''Running about-code-tool version 3.0.0'',
      ''Collecting the inventory from location: /in and writing output to: /out/new.csv'',
      ''ERROR: boom'', ''INFO: note'']"
    using t by (simp add: rv so so' p v)
  have l: "log_between [''ERROR: boom''] [''ERROR: boom'', ''INFO: note'']
     (fsys (world_of (inventory ?env False ''csv'' ''/in'' ''/out/new.csv'' ?w)) ''/out/error.log'')"
    using t unfolding rv v(1) p(2,3) by (simp add: stub_paths)
  from ok r s l show ?thesis by blast
qed

text \<open>
  C2: when the output path of \<open>inventory\<close> exists and \<open>--overwrite\<close> is not given, the
  command prints its error message and returns: no collaborator is called (so
  \<open>collect_inventory\<close> is not), and the file system is left as it was (neither the output
  file nor \<open>error.log\<close> is written).
\<close>

theorem inventory_refuses_overwrite:
  assumes "exists w output" and "\<not> overwrite"
  shows "inventory env overwrite format location output w =
           Returned (w\<lparr>stdout := stdout w @
             [banner env, ''ERROR: <output> file already exists.'',
              ''Select a different file name or use the --overwrite option after the `inventory`.'',
              '''']\<rparr>) \<and>
         new_calls w (inventory env overwrite format location output w) = [] \<and>
         fsys (world_of (inventory env overwrite format location output w)) = fsys w"
  using assms by (simp add: inventory_def Let_def exists_def echo_def new_calls_def)

text \<open>The earlier inventory \<open>/out/inv.csv\<close> is not overwritten, and the old log stays.\<close>

theorem inventory_refuses_overwrite_witness:
  "exists sample_world ''/out/inv.csv'' \<and>
   inventory (stub_env [] [1]) False ''csv'' ''/in'' ''/out/inv.csv'' sample_world =
     Returned (sample_world\<lparr>stdout :=
       [''Running about-code-tool version 3.0.0'', ''ERROR: <output> file already exists.'',
        ''Select a different file name or use the --overwrite option after the `inventory`.'',
        '''']\<rparr>) \<and>
   fsys (world_of (inventory (stub_env [] [1]) False ''csv'' ''/in'' ''/out/inv.csv'' sample_world))
     ''/out/error.log'' = Some (File [''ERROR: old''])"
proof -
  have h: "exists sample_world ''/out/inv.csv''"
    by (simp add: exists_def sample_world_def initial_world_def sample_fs_def)
  show ?thesis
    using h inventory_refuses_overwrite [OF h, of False "stub_env [] [1]" "''csv''" "''/in''"]
    by (simp add: banner_def stub_env_def sample_world_def initial_world_def sample_fs_def)
qed

text \<open>
  C3, as stated, does not hold: the claim promises an \<open>error.log\<close> for every call with a
  true \<open>base_dir\<close>. When \<open>base_dir\<close> names no directory, \<open>logging.FileHandler\<close> raises
  and no log is written; \<open>attrib\<close> passes the directory of its output unchecked (line
  268). When \<open>error.log\<close> is itself a directory, \<open>os.remove\<close> raises and the directory
  stays.
\<close>

theorem log_errors_missing_directory_counterexample:
  "truthy (Some ''/nodir'') \<and>
   exn_of (log_errors (stub_env [] []) [(40, ''boom'')] (Some ''/nodir'') 0 sample_world) =
     Some (OSError ''/nodir/error.log'') \<and>
   fsys (world_of (log_errors (stub_env [] []) [(40, ''boom'')] (Some ''/nodir'') 0 sample_world))
     ''/nodir/error.log'' = None \<and>
   truthy (Some ''/out'') \<and>
   exn_of (log_errors (stub_env [] []) [(40, ''boom'')] (Some ''/out'') 0
             (sample_world\<lparr>fsys := sample_fs(''/out/error.log'' \<mapsto> Dir)\<rparr>)) =
     Some (OSError ''/out/error.log'') \<and>
   fsys (world_of (log_errors (stub_env [] []) [(40, ''boom'')] (Some ''/out'') 0
             (sample_world\<lparr>fsys := sample_fs(''/out/error.log'' \<mapsto> Dir)\<rparr>)))
     ''/out/error.log'' = Some Dir"
  by code_simp

text \<open>
  C3, amended: a call of \<open>log_errors\<close> with a true \<open>base_dir\<close> whose log path lies in an
  existing directory (or in the working directory) and is not itself a directory
  creates \<open>error.log\<close> there empty, whatever was at that path before, and leaves in it
  exactly the lines logged by this call: nothing of an earlier log survives. This holds
  whether the call returns or stops at a severity missing from the table.
\<close>

theorem log_errors_replaces_log:
  assumes "truthy base_dir"
    and "fsys w (log_path env (the base_dir)) \<noteq> Some Dir"
    and "dirname env (log_path env (the base_dir)) = [] \<or>
         fsys w (dirname env (log_path env (the base_dir))) = Some Dir"
  shows "create_log env base_dir w =
           Returned (w\<lparr>fsys := (fsys w)(log_path env (the base_dir) \<mapsto> File [])\<rparr>) \<and>
         fsys (world_of (log_errors env errors base_dir level w)) (log_path env (the base_dir)) =
           Some (File (logged env level (handled env level errors)))"
  using create_log_ok[OF assms] log_errors_file[OF assms] by simp

text \<open>The earlier line \<open>ERROR: old\<close> is gone; the INFO record is dropped by the file logger.\<close>

theorem log_errors_replaces_log_witness:
  "truthy (Some ''/out'') \<and>
   fsys sample_world ''/out/error.log'' = Some (File [''ERROR: old'']) \<and>
   fsys sample_world ''/out'' = Some Dir \<and>
   fsys (world_of (log_errors (stub_env [] []) [(40, ''boom''), (20, ''note''), (30, ''careful'')]
                     (Some ''/out'') 0 sample_world)) ''/out/error.log'' =
     Some (File [''ERROR: boom'', ''WARNING: careful''])"
proof -
  have h1: "truthy (Some ''/out'')" by simp
  have h2: "fsys sample_world (log_path (stub_env [] []) (the (Some ''/out''))) \<noteq> Some Dir"
    by (simp add: stub_paths sample_world_def initial_world_def sample_fs_def)
  have h3: "dirname (stub_env [] []) (log_path (stub_env [] []) (the (Some ''/out''))) = [] \<or>
        fsys sample_world (dirname (stub_env [] []) (log_path (stub_env [] []) (the (Some ''/out''))))
          = Some Dir"
    by (simp add: stub_paths sample_world_def initial_world_def sample_fs_def)
  have l: "logged (stub_env [] []) 0
             (handled (stub_env [] []) 0 [(40, ''boom''), (20, ''note''), (30, ''careful'')]) =
           [''ERROR: boom'', ''WARNING: careful'']"
    by (simp add: logged_def handled_def error_line_def msg_format_def stub_env_def
          spec_severities_simps)
  show ?thesis
    using log_errors_replaces_log [OF h1 h2 h3,
            of "[(40, ''boom''), (20, ''note''), (30, ''careful'')]" 0] l
    by (simp add: stub_paths sample_world_def initial_world_def sample_fs_def)
qed

text \<open>
  C4: \<open>inventory\<close> gives up, with an error line and without any processing, when the
  format is neither \<open>csv\<close> nor \<open>json\<close>, and also when the format is not \<open>json\<close> and
  the output path does not end with \<open>.csv\<close>.
\<close>

theorem inventory_rejects_format_and_name:
  "(format \<notin> set formats \<longrightarrow>
      aborted env w (inventory env overwrite format location output w)) \<and>
   (format \<noteq> ''json'' \<and> \<not> endswith output ''.csv'' \<longrightarrow>
      aborted env w (inventory env overwrite format location output w))"
  using inventory_aborts[of env overwrite format "output" w location]
  by (auto simp: inventory_args_ok_def)

theorem inventory_rejects_format_and_name_witness:
  "''xml'' \<notin> set formats \<and> \<not> endswith ''/out/inv.txt'' ''.csv'' \<and>
   inventory (stub_env [] [1]) False ''xml'' ''/in'' ''/out/inv.txt'' sample_world =
     Returned (sample_world\<lparr>stdout :=
       [''Running about-code-tool version 3.0.0'',
        ''ERROR: Output format: xml is not supported.'', '''']\<rparr>) \<and>
   aborted (stub_env [] [1]) sample_world
     (inventory (stub_env [] [1]) False ''xml'' ''/in'' ''/out/inv.txt'' sample_world)"
proof -
  have h1: "''xml'' \<notin> set formats" by (simp add: formats_def)
  have h2: "\<not> endswith ''/out/inv.txt'' ''.csv''"
    by (simp add: endswith_def suffix_to_prefix)
  have r: "inventory (stub_env [] [1]) False ''xml'' ''/in'' ''/out/inv.txt'' sample_world =
     Returned (sample_world\<lparr>stdout :=
       [''Running about-code-tool version 3.0.0'',
        ''ERROR: Output format: xml is not supported.'', '''']\<rparr>)"
    by (simp add: inventory_def Let_def exists_def echo_def stub_paths formats_def banner_def)
       (simp add: stub_env_def sample_world_def initial_world_def sample_fs_def)
  show ?thesis
    using h1 h2 r
      inventory_rejects_format_and_name [of "''xml''" "stub_env [] [1]" sample_world False "''/in''"
        "''/out/inv.txt''"]
    by simp
qed

text \<open>
  C5: when the location of \<open>gen\<close> ends with neither \<open>.csv\<close> nor \<open>.json\<close>, the command
  prints its error message and returns: no collaborator is called (so \<open>generate\<close> is
  not) and no file is written.
\<close>

theorem gen_rejects_extension:
  assumes "\<not> endswith location ''.csv''" and "\<not> endswith location ''.json''"
  shows "gen env mapping license_text_location extract_license location output w =
           Returned (w\<lparr>stdout := stdout w @
             [banner env, ''ERROR: Input file. Only .csv and .json files are supported.'',
              '''']\<rparr>) \<and>
         new_calls w (gen env mapping license_text_location extract_license location output w) = [] \<and>
         fsys (world_of (gen env mapping license_text_location extract_license location output w))
           = fsys w"
  using assms by (simp add: gen_def Let_def echo_def new_calls_def)

theorem gen_rejects_extension_witness:
  "\<not> endswith ''/in/inventory.txt'' ''.csv'' \<and> \<not> endswith ''/in/inventory.txt'' ''.json'' \<and>
   gen (stub_env [] [1]) False None None ''/in/inventory.txt'' ''/out'' sample_world =
     Returned (sample_world\<lparr>stdout :=
       [''Running about-code-tool version 3.0.0'',
        ''ERROR: Input file. Only .csv and .json files are supported.'', '''']\<rparr>)"
proof -
  have h1: "\<not> endswith ''/in/inventory.txt'' ''.csv''"
    by (simp add: endswith_def suffix_to_prefix)
  have h2: "\<not> endswith ''/in/inventory.txt'' ''.json''"
    by (simp add: endswith_def suffix_to_prefix)
  show ?thesis
    using h1 h2 gen_rejects_extension [OF h1 h2, of "stub_env [] [1]" False None None "''/out''"
            sample_world]
    by (simp add: banner_def stub_env_def sample_world_def initial_world_def)
qed

text \<open>
  C6: when the location ends with \<open>.zip\<close> in any letter case, \<open>attrib\<close> calls
  \<open>extract_zip\<close> on it and then \<open>collect_inventory\<close> on what \<open>extract_zip\<close> returned, and
  so does \<open>inventory\<close> whenever its checks pass; no other location is collected. An
  \<open>inventory\<close> whose checks fail calls nothing.
\<close>

theorem zip_location_is_extracted:
  assumes "endswith (lower location) ''.zip''"
  shows "collects_extracted env location w
           (attrib env location out template mapping inventory_location w) \<and>
         (inventory_args_ok env overwrite format out w \<longrightarrow>
            collects_extracted env location w
              (inventory env overwrite format location out w)) \<and>
         (\<not> inventory_args_ok env overwrite format out w \<longrightarrow>
            new_calls w (inventory env overwrite format location out w) = [])"
proof (intro conjI impI)
  show "collects_extracted env location w
           (attrib env location out template mapping inventory_location w)"
    using attrib_collect_calls[of env location out template mapping inventory_location w] assms
    by (auto simp: collects_extracted_def new_calls_def attrib_calls)
next
  assume ok: "inventory_args_ok env overwrite format out w"
  from inventory_run_calls[of env format location out "echo (banner env) w"] assms
  show "collects_extracted env location w (inventory env overwrite format location out w)"
    by (auto simp: collects_extracted_def new_calls_def inventory_accepts[OF ok])
next
  assume "\<not> inventory_args_ok env overwrite format out w"
  from inventory_aborts[OF this, of location]
  show "new_calls w (inventory env overwrite format location out w) = []"
    by (simp add: aborted_def new_calls_def)
qed

theorem zip_location_is_extracted_witness:
  "endswith (lower ''/in/Abouts.ZIP'') ''.zip'' \<and>
   inventory_args_ok (stub_env [] [1]) False ''csv'' ''/out/new.csv'' sample_world \<and>
   \<not> inventory_args_ok (stub_env [] [1]) False ''csv'' ''/out/inv.csv'' sample_world \<and>
   new_calls sample_world
     (attrib (stub_env [] [1]) ''/in/Abouts.ZIP'' ''/out/notice.html'' None False None sample_world) =
     [ExtractZip ''/in/Abouts.ZIP'', CollectInventory ''/tmp/extracted'',
      GenerateAndSave [1] ''/out/notice.html'' False None None] \<and>
   collects_extracted (stub_env [] [1]) ''/in/Abouts.ZIP'' sample_world
     (inventory (stub_env [] [1]) False ''csv'' ''/in/Abouts.ZIP'' ''/out/new.csv'' sample_world) \<and>
   new_calls sample_world
     (inventory (stub_env [] [1]) False ''csv'' ''/in/Abouts.ZIP'' ''/out/inv.csv'' sample_world) = []"
proof -
  let ?env = "stub_env [] [1]"
  have h: "endswith (lower ''/in/Abouts.ZIP'') ''.zip''"
    by (simp add: lower_def lower_char_def endswith_def suffix_to_prefix)
  have a: "new_calls sample_world
     (attrib ?env ''/in/Abouts.ZIP'' ''/out/notice.html'' None False None sample_world) =
     [ExtractZip ''/in/Abouts.ZIP'', CollectInventory ''/tmp/extracted'',
      GenerateAndSave [1] ''/out/notice.html'' False None None]"
    using h
    by (simp add: new_calls_def attrib_calls attrib_collect_def unzip_location_def
          call_extract_zip_def call_collect_inventory_def call_generate_and_save_def
          stub_env_def echo_def sample_world_def initial_world_def)
  show ?thesis
    using h a stub_args(1,3)[of "[]" "[1]"]
      zip_location_is_extracted [OF h, of ?env sample_world "''/out/new.csv''" None False None
        False "''csv''"]
      zip_location_is_extracted [OF h, of ?env sample_world "''/out/inv.csv''" None False None
        False "''csv''"]
    by simp
qed

text \<open>
  C7, as stated, does not hold: the claim gives every subcommand invocation one of two
  ends, all checks passed and the collaborator called, or a check failed, a message
  printed and a normal return. \<open>export\<close> (lines 219-221) has no check and no
  collaborator: it prints its line and returns. \<open>fetch\<close> and \<open>redist\<close> (lines 225-232,
  271-282) are called without the parameters they declare and raise \<open>TypeError\<close>. The
  \<open>click.Path\<close> checks declared on the arguments fail with a usage error, not with a
  printed message and a normal return: \<open>gen\<close> on a location that does not exist. And an
  \<open>inventory\<close> whose \<open>error.log\<close> is a directory has written its output when
  \<open>os.remove\<close> raises.
\<close>

theorem subcommand_dichotomy_counterexample:
  "args_ok (stub_env [] [7]) Export sample_world \<and>
   returned (about (stub_env [] [7]) 30 False Export sample_world) \<and>
   new_calls sample_world (about (stub_env [] [7]) 30 False Export sample_world) = [] \<and>
   new_output sample_world (about (stub_env [] [7]) 30 False Export sample_world) =
     [''Running about-code-tool version 3.0.0'', ''Exporting zip archive...''] \<and>
   exn_of (about (stub_env [] [7]) 30 False Fetch sample_world) = Some TypeError \<and>
   exn_of (about (stub_env [] [7]) 30 False Redist sample_world) = Some TypeError \<and>
   exn_of (about (stub_env [] [7]) 30 False
             (Gen False None None ''/in/missing.csv'' ''/out'') sample_world) = Some UsageError \<and>
   exn_of (about (stub_env [] [7]) 30 False (Inventory False ''csv'' ''/in'' ''/out/new.csv'')
             (sample_world\<lparr>fsys := sample_fs(''/out/error.log'' \<mapsto> Dir)\<rparr>)) =
     Some (OSError ''/out/error.log'') \<and>
   fsys (world_of (about (stub_env [] [7]) 30 False (Inventory False ''csv'' ''/in'' ''/out/new.csv'')
             (sample_world\<lparr>fsys := sample_fs(''/out/error.log'' \<mapsto> Dir)\<rparr>)))
     ''/out/new.csv'' = Some (File [''csv''])"
  by code_simp

text \<open>
  C7, amended: an invocation of \<open>inventory\<close>, \<open>gen\<close> or \<open>attrib\<close> ends in one of three
  ways. The \<open>click.Path\<close> checks of its arguments fail: the invocation stops with a
  usage error once the flags are stored, with no output, no collaborator call and
  every file unchanged. Or they pass and every check of the body passes: the
  collaborator is called, \<open>collect_inventory\<close> on the location (its extraction when
  zipped), \<open>generate\<close> on the arguments of the command line, \<open>generate_and_save\<close> on the
  collected records and the arguments of the command line. Or they pass and a check of
  the body fails: the command prints the banner and an error line and returns
  normally, with no collaborator call and every file unchanged.
\<close>

theorem validate_then_delegate:
  assumes "has_collaborator cmd"
  shows "(\<not> click_accepts cmd (fsys w) \<and>
          about env verbose quiet cmd w = Raised UsageError (cli verbose quiet w)) \<or>
         (click_accepts cmd (fsys w) \<and> args_ok env cmd w \<and>
          delegated env cmd w (about env verbose quiet cmd w)) \<or>
         (click_accepts cmd (fsys w) \<and> \<not> args_ok env cmd w \<and>
          aborted env w (about env verbose quiet cmd w))"
proof (cases "click_accepts cmd (fsys w)")
  case False
  then show ?thesis by (simp add: about_def invoke_def cli_def)
next
  case acc: True
  let ?w = "cli verbose quiet w"
  have f: "fsys ?w = fsys w" "calls ?w = calls w" "stdout ?w = stdout w"
    by (simp_all add: cli_def)
  have run: "about env verbose quiet cmd w = run_command env cmd ?w"
    using acc by (simp add: about_def invoke_def f)
  have nc: "\<And>out. new_calls w out = new_calls ?w out"
    by (simp add: new_calls_def f)
  have ab: "\<And>out. aborted env w out = aborted env ?w out"
    by (simp add: aborted_def new_output_def f)
  show ?thesis
  proof (cases cmd)
    case (Inventory overwrite format location out)
    have ok: "inventory_args_ok env overwrite format out ?w = inventory_args_ok env overwrite format out w"
      by (simp add: inventory_args_ok_def f)
    have cl: "collected_location env location ?w = collected_location env location w"
      by (simp add: collected_location_def f)
    show ?thesis
    proof (cases "inventory_args_ok env overwrite format out w")
      case True
      with ok have "inventory_args_ok env overwrite format out ?w" by simp
      from inventory_delegated[OF this, of location] cl
      have "delegated env cmd w (about env verbose quiet cmd w)"
        by (simp add: delegated_def Inventory run[unfolded Inventory, simplified] nc)
      with acc True Inventory show ?thesis by simp
    next
      case False
      with ok have "\<not> inventory_args_ok env overwrite format out ?w" by simp
      from inventory_aborts[OF this, of location]
      have "aborted env w (about env verbose quiet cmd w)"
        by (simp add: Inventory run[unfolded Inventory, simplified] ab)
      with acc False Inventory show ?thesis by simp
    qed
  next
    case (Gen mapping ltl el location out)
    show ?thesis
    proof (cases "gen_args_ok location")
      case True
      from gen_delegated[OF True, of mapping el out ?w env ltl]
      have "delegated env cmd w (about env verbose quiet cmd w)"
        by (simp add: delegated_def Gen run[unfolded Gen, simplified] nc)
      with acc True Gen show ?thesis by simp
    next
      case False
      from gen_aborts[OF False, of env ?w mapping ltl el out]
      have "aborted env w (about env verbose quiet cmd w)"
        by (simp add: Gen run[unfolded Gen, simplified] ab)
      with acc False Gen show ?thesis by simp
    qed
  next
    case (Attrib location out template mapping inventory_location)
    have ca: "collected_abouts env location ?w = collected_abouts env location w"
      by (simp add: collected_abouts_def collected_location_def f)
    from attrib_delegated[of env location ?w out mapping template inventory_location] ca
    have "delegated env cmd w (about env verbose quiet cmd w)"
      by (simp add: delegated_def Attrib run[unfolded Attrib, simplified] nc)
    with acc Attrib show ?thesis by simp
  next
    case Export
    with assms show ?thesis by simp
  next
    case Fetch
    with assms show ?thesis by simp
  next
    case Redist
    with assms show ?thesis by simp
  qed
qed

text \<open>
  An \<open>inventory\<close> to a new file collects \<open>/in\<close>; one to an existing file without
  \<open>--overwrite\<close> gives up; a \<open>gen\<close> on a missing location is refused by the
  \<open>click.Path\<close> check.
\<close>

theorem validate_then_delegate_witness:
  "has_collaborator (Inventory False ''csv'' ''/in'' ''/out/new.csv'') \<and>
   click_accepts (Inventory False ''csv'' ''/in'' ''/out/new.csv'') (fsys sample_world) \<and>
   args_ok (stub_env [] [7]) (Inventory False ''csv'' ''/in'' ''/out/new.csv'') sample_world \<and>
   CollectInventory ''/in'' \<in> set (new_calls sample_world
     (about (stub_env [] [7]) 30 False (Inventory False ''csv'' ''/in'' ''/out/new.csv'')
        sample_world)) \<and>
   click_accepts (Inventory False ''csv'' ''/in'' ''/out/inv.csv'') (fsys sample_world) \<and>
   \<not> args_ok (stub_env [] [7]) (Inventory False ''csv'' ''/in'' ''/out/inv.csv'') sample_world \<and>
   aborted (stub_env [] [7]) sample_world
     (about (stub_env [] [7]) 30 False (Inventory False ''csv'' ''/in'' ''/out/inv.csv'')
        sample_world) \<and>
   has_collaborator (Gen False None None ''/in/missing.csv'' ''/out'') \<and>
   \<not> click_accepts (Gen False None None ''/in/missing.csv'' ''/out'') (fsys sample_world) \<and>
   exn_of (about (stub_env [] [7]) 30 False (Gen False None None ''/in/missing.csv'' ''/out'')
             sample_world) = Some UsageError"
proof -
  let ?env = "stub_env [] [7]"
  let ?a = "Inventory False ''csv'' ''/in'' ''/out/new.csv''"
  let ?b = "Inventory False ''csv'' ''/in'' ''/out/inv.csv''"
  let ?c = "Gen False None None ''/in/missing.csv'' ''/out''"
  have fs: "fsys sample_world = sample_fs" by (simp add: sample_world_def initial_world_def)
  have ha: "has_collaborator ?a" and hb: "has_collaborator ?b" and hc: "has_collaborator ?c"
    by simp_all
  have ca: "click_accepts ?a (fsys sample_world)"
    by (simp add: fs click_path_def sample_fs_def)
  have cb: "click_accepts ?b (fsys sample_world)"
    by (simp add: fs click_path_def sample_fs_def)
  have cc: "\<not> click_accepts ?c (fsys sample_world)"
    by (simp add: fs click_path_def sample_fs_def)
  have oa: "args_ok ?env ?a sample_world" by (simp add: stub_args)
  have ob: "\<not> args_ok ?env ?b sample_world" by (simp add: stub_args)
  have da: "delegate_call ?env ?a sample_world = Some (CollectInventory ''/in'')"
    by (simp add: collected_location_def lower_def lower_char_def endswith_def suffix_to_prefix)
  have ra: "delegated ?env ?a sample_world (about ?env 30 False ?a sample_world)"
    using validate_then_delegate [OF ha, of sample_world ?env 30 False] ca oa by blast
  have rb: "aborted ?env sample_world (about ?env 30 False ?b sample_world)"
    using validate_then_delegate [OF hb, of sample_world ?env 30 False] cb ob by blast
  have rc: "about ?env 30 False ?c sample_world = Raised UsageError (cli 30 False sample_world)"
    using validate_then_delegate [OF hc, of sample_world ?env 30 False] cc by blast
  have ra': "CollectInventory ''/in'' \<in> set (new_calls sample_world
     (about ?env 30 False ?a sample_world))"
    using ra unfolding delegated_def da by simp
  have rc': "exn_of (about ?env 30 False ?c sample_world) = Some UsageError"
    by (simp add: rc)
  show ?thesis
    using ha hc ca cb cc oa ob ra' rb rc' by blast
qed

text \<open>
  C8: the command group sets \<open>no_stdout\<close> and \<open>verbosity_num\<close> from \<open>--quiet\<close> and
  \<open>--verbose\<close>, click turns to the subcommand in the world the group left and runs it
  there when it accepts the arguments, no subcommand writes either flag again, so that
  both still hold the options when the command line ends, and with \<open>no_stdout\<close> set
  \<open>log_errors\<close> prints nothing, whatever the errors, the directory and the level, also
  when it raises.
\<close>

theorem flags_set_once_and_quiet:
  "no_stdout (cli verbose quiet w) = quiet \<and>
   verbosity_num (cli verbose quiet w) = verbose \<and>
   about env verbose quiet cmd w = invoke env cmd (cli verbose quiet w) \<and>
   (click_accepts cmd (fsys w) \<longrightarrow>
      about env verbose quiet cmd w = run_command env cmd (cli verbose quiet w)) \<and>
   no_stdout (world_of (run_command env cmd w1)) = no_stdout w1 \<and>
   verbosity_num (world_of (run_command env cmd w1)) = verbosity_num w1 \<and>
   no_stdout (world_of (about env verbose quiet cmd w)) = quiet \<and>
   verbosity_num (world_of (about env verbose quiet cmd w)) = verbose \<and>
   (no_stdout w2 \<longrightarrow> stdout (world_of (log_errors env errors base_dir level w2)) = stdout w2)"
  by (simp add: about_def invoke_keeps run_command_keeps log_errors_quiet)
     (simp add: cli_def invoke_def)

theorem flags_set_once_and_quiet_witness:
  "no_stdout (cli 20 True sample_world) \<and>
   click_accepts Export (fsys sample_world) \<and>
   about (stub_env [] []) 20 True Export sample_world =
     run_command (stub_env [] []) Export (cli 20 True sample_world) \<and>
   stdout (world_of (log_errors (stub_env [] []) [(ERROR, ''boom'')] (Some ''/out'') 20
                       (cli 20 True sample_world))) = []"
proof -
  note t = flags_set_once_and_quiet [of 20 True sample_world "stub_env [] []" Export sample_world
             "cli 20 True sample_world" "[(ERROR, ''boom'')]" "Some ''/out''" 20]
  have a: "click_accepts Export (fsys sample_world)" by simp
  have q: "no_stdout (cli 20 True sample_world)" by (simp add: cli_def)
  have r: "about (stub_env [] []) 20 True Export sample_world =
             run_command (stub_env [] []) Export (cli 20 True sample_world)"
    using t a by blast
  have s: "stdout (world_of (log_errors (stub_env [] []) [(ERROR, ''boom'')] (Some ''/out'') 20
                       (cli 20 True sample_world))) = stdout (cli 20 True sample_world)"
    using t q by blast
  have e: "stdout (cli 20 True sample_world) = []"
    by (simp add: cli_def sample_world_def initial_world_def)
  show ?thesis
    using a q r s e by simp
qed

text \<open>
  C9: when \<open>gen\<close> passes its check, the line it prints before logging reads
  \<open>Generated <lea> ABOUT files with <lee> errors and/or warning\<close>, where \<open><lea>\<close> is the
  decimal numeral of the length of the ABOUT list and \<open><lee>\<close> the decimal numeral of
  the number of errors of the final list whose severity is above 20; on the five levels
  of the scale these are the CRITICAL, ERROR and WARNING errors.
\<close>

theorem gen_summary_counts:
  assumes "gen_args_ok location"
    and "gen_collect env mapping license_text_location extract_license location output
           (echo ''Generating ABOUT files...'' (echo (banner env) w)) = ((errors, abouts), w1)"
  shows "gen env mapping license_text_location extract_license location output w =
           log_errors env errors (Some output) NOTSET
             (echo (''Generated '' @ str_nat (length abouts) @ '' ABOUT files with '' @
                    str_nat (length (filter (\<lambda>e. 20 < fst e) errors)) @
                    '' errors and/or warning'') w1) \<and>
         decimal_value (str_nat (length abouts)) = length abouts \<and>
         decimal_value (str_nat (length (filter (\<lambda>e. 20 < fst e) errors))) =
           length (filter (\<lambda>e. 20 < fst e) errors) \<and>
         (''Generated '' @ str_nat (length abouts) @ '' ABOUT files with '' @
            str_nat (length (filter (\<lambda>e. 20 < fst e) errors)) @ '' errors and/or warning'')
           \<in> set (stdout (world_of
                (gen env mapping license_text_location extract_license location output w))) \<and>
         (list_all (\<lambda>e. fst e \<in> {CRITICAL, ERROR, WARNING, INFO, NOTSET}) errors \<longrightarrow>
          length (filter (\<lambda>e. 20 < fst e) errors) =
          length (filter (\<lambda>e. fst e \<in> {CRITICAL, ERROR, WARNING}) errors))"
proof -
  let ?s = "''Generated '' @ str_nat (length abouts) @ '' ABOUT files with '' @
            str_nat (length (filter (\<lambda>e. 20 < fst e) errors)) @ '' errors and/or warning''"
  have eq: "gen env mapping license_text_location extract_license location output w =
           log_errors env errors (Some output) NOTSET (echo ?s w1)"
    using assms by (auto simp: gen_def gen_args_ok_def Let_def count_errors_filter summary_def)
  obtain ls where "stdout (world_of (log_errors env errors (Some output) NOTSET (echo ?s w1))) =
      stdout (echo ?s w1) @ ls"
    using log_errors_stdout_grows by blast
  then have mem: "?s \<in> set (stdout (world_of (log_errors env errors (Some output) NOTSET (echo ?s w1))))"
    by simp
  have lv: "list_all (\<lambda>e. fst e \<in> {CRITICAL, ERROR, WARNING, INFO, NOTSET}) errors \<longrightarrow>
          filter (\<lambda>e. 20 < fst e) errors =
          filter (\<lambda>e. fst e \<in> {CRITICAL, ERROR, WARNING}) errors"
    by (auto simp: list_all_iff CRITICAL_def ERROR_def WARNING_def INFO_def NOTSET_def
             intro!: filter_cong)
  show ?thesis using eq mem lv by (simp add: decimal_value_str_nat)
qed

text \<open>Three ABOUT records; an ERROR and a WARNING are counted, the INFO is not.\<close>

theorem gen_summary_counts_witness:
  "gen_args_ok ''/in/inventory.csv'' \<and>
   list_all (\<lambda>e. fst e \<in> {CRITICAL, ERROR, WARNING, INFO, NOTSET})
     [(40, ''boom''), (20, ''note''), (30, ''careful'')] \<and>
   ''Generated 3 ABOUT files with 2 errors and/or warning''
     \<in> set (stdout (world_of (gen (stub_env [(40, ''boom''), (20, ''note''), (30, ''careful'')]
                [7, 8, 9]) False None None ''/in/inventory.csv'' ''/out'' sample_world))) \<and>
   length (filter (\<lambda>e. 20 < fst e) [(40 :: int, ''boom''), (20, ''note''), (30, ''careful'')]) =
   length (filter (\<lambda>e. fst e \<in> {CRITICAL, ERROR, WARNING})
     [(40 :: int, ''boom''), (20, ''note''), (30, ''careful'')])"
proof -
  let ?errs = "[(40 :: int, ''boom''), (20, ''note''), (30, ''careful'')]"
  let ?env = "stub_env ?errs [7, 8, 9]"
  have h1: "gen_args_ok ''/in/inventory.csv''"
    by (simp add: gen_args_ok_def endswith_def suffix_to_prefix)
  have h2: "gen_collect ?env False None None ''/in/inventory.csv'' ''/out''
           (echo ''Generating ABOUT files...'' (echo (banner ?env) sample_world)) =
        ((?errs, [7, 8, 9]),
         (echo ''Generating ABOUT files...'' (echo (banner ?env) sample_world))
           \<lparr>calls := [Generate False None ''/in/inventory.csv'' ''/out'']\<rparr>)"
    by (simp add: gen_collect_def call_generate_def gen_license_files_def stub_env_def echo_def
          sample_world_def initial_world_def)
  have h3: "list_all (\<lambda>e. fst e \<in> {CRITICAL, ERROR, WARNING, INFO, NOTSET}) ?errs"
    by (simp add: CRITICAL_def ERROR_def WARNING_def INFO_def NOTSET_def)
  note t = gen_summary_counts [OF h1 h2]
  have l: "''Generated '' @ str_nat (length [7, 8, 9 :: nat]) @ '' ABOUT files with '' @
            str_nat (length (filter (\<lambda>e. 20 < fst e) ?errs)) @ '' errors and/or warning'' =
           ''Generated 3 ABOUT files with 2 errors and/or warning''"
    by (simp add: digit_def str_nat.simps)
  have m: "''Generated 3 ABOUT files with 2 errors and/or warning''
     \<in> set (stdout (world_of (gen ?env False None None ''/in/inventory.csv'' ''/out''
                 sample_world)))"
    using t l by metis
  have c: "length (filter (\<lambda>e. 20 < fst e) ?errs) =
           length (filter (\<lambda>e. fst e \<in> {CRITICAL, ERROR, WARNING}) ?errs)"
    using t h3 by blast
  show ?thesis
    using h1 h3 m c by blast
qed

text \<open>
  C10: when \<open>inventory\<close> passes its checks and \<open>collect_inventory\<close> returns no ABOUT
  record, the errors it returned are dropped: \<open>log_errors\<close> gets the single error
  \<open>(ERROR, 'No ABOUT files is found. Generation halted.')\<close>, in the world
  \<open>collect_inventory\<close> left, and neither \<open>to_json\<close> nor \<open>to_csv\<close> is called. With ABOUT
  records, \<open>log_errors\<close> gets the collaborator's errors in the world left by \<open>to_json\<close>
  (format \<open>json\<close>) or \<open>to_csv\<close> (otherwise), which is the last collaborator call: the
  output is written before the errors are logged.
\<close>

theorem inventory_without_abouts:
  assumes "inventory_args_ok env overwrite format out w"
    and "inventory_collect env location out (echo (banner env) w) = ((errors, abouts), w1)"
  shows "(abouts = [] \<longrightarrow>
            inventory env overwrite format location out w =
              log_errors env [(ERROR, ''No ABOUT files is found. Generation halted.'')]
                (Some (dirname env out)) (verbosity_num w) w1 \<and>
            list_all (\<lambda>c. \<not> is_output_write c)
              (new_calls w (inventory env overwrite format location out w))) \<and>
         (abouts \<noteq> [] \<longrightarrow>
            inventory env overwrite format location out w =
              log_errors env errors (Some (dirname env out)) (verbosity_num w)
                (if format = ''json'' then call_to_json env abouts out w1
                 else call_to_csv env abouts out w1) \<and>
            last (new_calls w (inventory env overwrite format location out w)) =
              (if format = ''json'' then ToJson abouts out else ToCsv abouts out))"
proof -
  have v: "verbosity_num w1 = verbosity_num w"
    using inventory_collect_keeps(2)[of env location out "echo (banner env) w"] assms(2) by simp
  have c1: "calls w1 = calls w @ (if endswith (lower location) ''.zip''
                then [ExtractZip location,
                      CollectInventory (fst (extract_zip env location (fsys w)))]
                else [CollectInventory location])"
    using inventory_collect_calls[of env location out "echo (banner env) w"] assms(2) by simp
  show ?thesis
  proof (intro conjI impI)
    assume e: "abouts = []"
    show "inventory env overwrite format location out w =
              log_errors env [(ERROR, ''No ABOUT files is found. Generation halted.'')]
                (Some (dirname env out)) (verbosity_num w) w1"
      using assms(2) e v
      by (simp add: inventory_accepts[OF assms(1)] inventory_run_def inventory_write_def)
    then show "list_all (\<lambda>c. \<not> is_output_write c)
              (new_calls w (inventory env overwrite format location out w))"
      using c1 by (simp add: new_calls_def log_errors_keeps)
  next
    assume ne: "abouts \<noteq> []"
    show eq: "inventory env overwrite format location out w =
              log_errors env errors (Some (dirname env out)) (verbosity_num w)
                (if format = ''json'' then call_to_json env abouts out w1
                 else call_to_csv env abouts out w1)"
      using assms(2) ne v
      by (simp add: inventory_accepts[OF assms(1)] inventory_run_def inventory_write_def)
    show "last (new_calls w (inventory env overwrite format location out w)) =
              (if format = ''json'' then ToJson abouts out else ToCsv abouts out)"
      using c1 by (simp add: eq new_calls_def log_errors_keeps call_to_json_def call_to_csv_def)
  qed
qed

text \<open>One run without ABOUT records, and one with a record and the format \<open>json\<close>.\<close>

theorem inventory_without_abouts_witness:
  "inventory_args_ok (stub_env [(30, ''careful'')] []) False ''csv'' ''/out/new.csv'' sample_world \<and>
   list_all (\<lambda>c. \<not> is_output_write c)
     (new_calls sample_world
        (inventory (stub_env [(30, ''careful'')] []) False ''csv'' ''/in'' ''/out/new.csv''
           sample_world)) \<and>
   inventory_args_ok (stub_env [(30, ''careful'')] [7]) False ''json'' ''/out/new.json''
     sample_world \<and>
   last (new_calls sample_world
        (inventory (stub_env [(30, ''careful'')] [7]) False ''json'' ''/in'' ''/out/new.json''
           sample_world)) = ToJson [7] ''/out/new.json''"
proof -
  let ?e0 = "stub_env [(30, ''careful'')] []"
  let ?e1 = "stub_env [(30, ''careful'')] [7]"
  let ?c0 = "inventory_collect ?e0 ''/in'' ''/out/new.csv'' (echo (banner ?e0) sample_world)"
  let ?c1 = "inventory_collect ?e1 ''/in'' ''/out/new.json'' (echo (banner ?e1) sample_world)"
  have a0: "inventory_args_ok ?e0 False ''csv'' ''/out/new.csv'' sample_world"
    by (rule stub_args)
  have a1: "inventory_args_ok ?e1 False ''json'' ''/out/new.json'' sample_world"
    by (rule stub_args)
  have c0: "?c0 = ((fst (fst ?c0), snd (fst ?c0)), snd ?c0)" by simp
  have c1: "?c1 = ((fst (fst ?c1), snd (fst ?c1)), snd ?c1)" by simp
  have n0: "snd (fst ?c0) = []"
    by (simp add: inventory_collect_def unzip_location_def call_collect_inventory_def
          lower_def lower_char_def endswith_def suffix_to_prefix stub_env_def)
  have n1: "snd (fst ?c1) = [7]"
    by (simp add: inventory_collect_def unzip_location_def call_collect_inventory_def
          lower_def lower_char_def endswith_def suffix_to_prefix stub_env_def)
  have r0: "list_all (\<lambda>c. \<not> is_output_write c)
     (new_calls sample_world (inventory ?e0 False ''csv'' ''/in'' ''/out/new.csv'' sample_world))"
    using inventory_without_abouts [OF a0 c0] n0 by blast
  have ne: "snd (fst ?c1) \<noteq> []" using n1 by simp
  have "last (new_calls sample_world
          (inventory ?e1 False ''json'' ''/in'' ''/out/new.json'' sample_world)) =
        (if ''json'' = ''json'' then ToJson (snd (fst ?c1)) ''/out/new.json''
         else ToCsv (snd (fst ?c1)) ''/out/new.json'')"
    using inventory_without_abouts [OF a1 c1] ne by blast
  then have r1: "last (new_calls sample_world
          (inventory ?e1 False ''json'' ''/in'' ''/out/new.json'' sample_world)) =
        ToJson [7] ''/out/new.json''"
    using n1 by simp
  show ?thesis
    using a0 a1 r0 r1 by blast
qed

end
